theory Spec2Isabelle
  imports Complex_Main "HOL-Library.Sublist"
begin

section \<open>Python values\<close>

text \<open>
  The monitor works on decoded JSON: the result of \<^verbatim>\<open>response.json()\<close>. A value is
  \<^verbatim>\<open>None\<close>, a bool, an int, a float, a str, a list or a dict with string keys. A dict
  is an association list in insertion order (the order shows in \<^verbatim>\<open>str(d)\<close>); lookup
  takes the first entry of a key. A str is the list of the bytes of its UTF-8 encoding.

  A float is an IEEE double: a finite value, given by the rational it denotes (\<open>Fin 0\<close> is
  \<^verbatim>\<open>0.0\<close>), the negative zero, an infinity or \<^verbatim>\<open>nan\<close>. JSON as Python reads it has all of
  them (\<^verbatim>\<open>-0.0\<close>, \<^verbatim>\<open>1e999\<close>, \<^verbatim>\<open>NaN\<close>).
\<close>

datatype pyfloat = Fin rat | NegZero | PosInf | NegInf | NaN

instantiation pyfloat :: zero
begin

definition zero_pyfloat :: pyfloat where
  "zero_pyfloat = Fin 0"

instance ..

end

datatype pyval =
    PNone
  | PBool bool
  | PInt int
  | PFloat pyfloat
  | PStr string
  | PList "pyval list"
  | PDict "(string \<times> pyval) list"

datatype pyerr =
    TypeError
  | AttributeError
  | ValueError
  | KeyError
  | ZeroDivisionError
  | OverflowError
  | IndexError
  | IntegrityError
  | BindError

text \<open>An operation returns its value or the exception it raises.\<close>

definition bindE :: "'e + 'a \<Rightarrow> ('a \<Rightarrow> 'e + 'b) \<Rightarrow> 'e + 'b" where
  "bindE m f = (case m of Inl e \<Rightarrow> Inl e | Inr v \<Rightarrow> f v)"

text \<open>
  What the code takes from the Python runtime and from SQLite, and does not define
  itself: \<^verbatim>\<open>float(s)\<close> of a string (\<open>None\<close> is \<^verbatim>\<open>ValueError\<close>); \<^verbatim>\<open>repr\<close> of a float;
  \<^verbatim>\<open>repr\<close> of a stretch of characters outside ASCII (which of them are printable, and
  the escapes of the others, come from the Unicode tables); the date arithmetic inside
  \<^verbatim>\<open>_format_age\<close>; the number SQLite reads in a text that looks like one (an int or a
  float), and the text SQLite writes for a float.
\<close>

record runtime =
  str_to_float :: "string \<Rightarrow> pyfloat option"
  float_repr :: "pyfloat \<Rightarrow> string"
  repr_non_ascii :: "string \<Rightarrow> string"
  age_text :: "pyval \<Rightarrow> string"
  sqlite_numeric :: "string \<Rightarrow> pyval option"
  sqlite_float_text :: "pyfloat \<Rightarrow> string"

section \<open>Floats\<close>

text \<open>\<^verbatim>\<open>round(x)\<close> and the rounding of \<^verbatim>\<open>format\<close>: to nearest, ties to even.\<close>

definition round_half_even :: "rat \<Rightarrow> int" where
  "round_half_even x =
     (let f = \<lfloor>x\<rfloor>; d = x - of_int f
      in if d < 1 / 2 then f else if 1 / 2 < d then f + 1 else if even f then f else f + 1)"

text \<open>The number of binary digits of a positive int, and the powers of two.\<close>

function bit_len :: "int \<Rightarrow> int" where
  "bit_len n = (if n \<le> 0 then 0 else 1 + bit_len (n div 2))"
  by pat_completeness auto
termination
  by (relation "measure nat") auto

declare bit_len.simps [simp del]

function pow2n :: "int \<Rightarrow> rat" where
  "pow2n k =
     (if k \<le> 0 then 1
      else if even k then pow2n (k div 2) * pow2n (k div 2)
      else 2 * (pow2n (k div 2) * pow2n (k div 2)))"
  by pat_completeness auto
termination
  by (relation "measure nat") auto

declare pow2n.simps [simp del]

definition pow2 :: "int \<Rightarrow> rat" where
  "pow2 k = (if 0 \<le> k then pow2n k else 1 / pow2n (- k))"

text \<open>The exponent \<open>e\<close> with \<open>2\<^sup>e \<le> a < 2\<^sup>e\<^sup>+\<^sup>1\<close>, for \<open>a > 0\<close>.\<close>

definition floor_log2 :: "rat \<Rightarrow> int" where
  "floor_log2 a =
     (let d = bit_len (fst (quotient_of a)) - bit_len (snd (quotient_of a))
      in if pow2 d \<le> a then d else d - 1)"

text \<open>
  The double nearest to a magnitude \<open>a \<ge> 0\<close>, with a sign: 53 binary digits, ties to
  even; below \<open>2\<^sup>-\<^sup>1\<^sup>0\<^sup>2\<^sup>2\<close> the spacing stays \<open>2\<^sup>-\<^sup>1\<^sup>0\<^sup>7\<^sup>4\<close>; a result of \<open>2\<^sup>1\<^sup>0\<^sup>2\<^sup>4\<close>
  or more is an infinity; a zero keeps the sign.
\<close>

definition signed_round :: "bool \<Rightarrow> rat \<Rightarrow> pyfloat" where
  "signed_round neg a =
     (if a = 0 then (if neg then NegZero else Fin 0)
      else
        let q = max (floor_log2 a - 52) (- 1074);
            m = round_half_even (a / pow2 q)
        in if 971 < q \<or> (q = 971 \<and> 9007199254740992 \<le> m)
           then (if neg then NegInf else PosInf)
           else if m = 0 then (if neg then NegZero else Fin 0)
           else Fin ((if neg then - 1 else 1) * (of_int m * pow2 q)))"

definition round_double :: "rat \<Rightarrow> pyfloat" where
  "round_double z = signed_round (z < 0) \<bar>z\<bar>"

fun float_neg :: "pyfloat \<Rightarrow> bool" where
  "float_neg (Fin x) = (x < 0)"
| "float_neg NegZero = True"
| "float_neg NegInf = True"
| "float_neg PosInf = False"
| "float_neg NaN = False"

fun float_is_zero :: "pyfloat \<Rightarrow> bool" where
  "float_is_zero (Fin x) = (x = 0)"
| "float_is_zero NegZero = True"
| "float_is_zero _ = False"

fun float_is_inf :: "pyfloat \<Rightarrow> bool" where
  "float_is_inf PosInf = True"
| "float_is_inf NegInf = True"
| "float_is_inf _ = False"

fun float_val :: "pyfloat \<Rightarrow> rat" where
  "float_val (Fin x) = x"
| "float_val _ = 0"

text \<open>\<^verbatim>\<open>a / b\<close>, \<^verbatim>\<open>a * b\<close> and \<^verbatim>\<open>a - b\<close> on floats. Only the division raises.\<close>

definition float_div :: "pyfloat \<Rightarrow> pyfloat \<Rightarrow> pyerr + pyfloat" where
  "float_div a b =
     (let neg = (float_neg a \<noteq> float_neg b)
      in if float_is_zero b then Inl ZeroDivisionError
         else if a = NaN \<or> b = NaN then Inr NaN
         else if float_is_inf a
           then (if float_is_inf b then Inr NaN else Inr (if neg then NegInf else PosInf))
         else if float_is_inf b then Inr (if neg then NegZero else Fin 0)
         else Inr (signed_round neg (\<bar>float_val a\<bar> / \<bar>float_val b\<bar>)))"

definition float_mul :: "pyfloat \<Rightarrow> pyfloat \<Rightarrow> pyfloat" where
  "float_mul a b =
     (let neg = (float_neg a \<noteq> float_neg b)
      in if a = NaN \<or> b = NaN then NaN
         else if float_is_inf a \<or> float_is_inf b
           then (if float_is_zero a \<or> float_is_zero b then NaN
                 else if neg then NegInf else PosInf)
         else signed_round neg (\<bar>float_val a\<bar> * \<bar>float_val b\<bar>))"

definition float_sub :: "pyfloat \<Rightarrow> pyfloat \<Rightarrow> pyfloat" where
  "float_sub a b =
     (if a = NaN \<or> b = NaN then NaN
      else if float_is_inf a then (if b = a then NaN else a)
      else if float_is_inf b then (if b = PosInf then NegInf else PosInf)
      else if float_val a - float_val b = 0
        then (if a = NegZero \<and> b \<noteq> NegZero then NegZero else Fin 0)
      else round_double (float_val a - float_val b))"

fun float_abs :: "pyfloat \<Rightarrow> pyfloat" where
  "float_abs (Fin x) = Fin \<bar>x\<bar>"
| "float_abs NegZero = Fin 0"
| "float_abs NegInf = PosInf"
| "float_abs f = f"

text \<open>Comparison: false as soon as one side is \<^verbatim>\<open>nan\<close>.\<close>

fun float_rank :: "pyfloat \<Rightarrow> int" where
  "float_rank NegInf = - 1"
| "float_rank PosInf = 1"
| "float_rank _ = 0"

definition float_lt :: "pyfloat \<Rightarrow> pyfloat \<Rightarrow> bool" where
  "float_lt a b =
     (a \<noteq> NaN \<and> b \<noteq> NaN \<and>
      (float_rank a < float_rank b \<or> (float_rank a = float_rank b \<and> float_val a < float_val b)))"

definition float_eq :: "pyfloat \<Rightarrow> pyfloat \<Rightarrow> bool" where
  "float_eq a b =
     (a \<noteq> NaN \<and> b \<noteq> NaN \<and> float_rank a = float_rank b \<and> float_val a = float_val b)"

text \<open>\<^verbatim>\<open>float(i)\<close> of an int: the nearest double, \<^verbatim>\<open>OverflowError\<close> when there is none.\<close>

definition int_to_float :: "int \<Rightarrow> pyerr + pyfloat" where
  "int_to_float i =
     (case round_double (of_int i) of
        PosInf \<Rightarrow> Inl OverflowError
      | NegInf \<Rightarrow> Inl OverflowError
      | f \<Rightarrow> Inr f)"

text \<open>\<^verbatim>\<open>round(f)\<close> of a float, an int.\<close>

fun py_round :: "pyfloat \<Rightarrow> pyerr + int" where
  "py_round (Fin x) = Inr (round_half_even x)"
| "py_round NegZero = Inr 0"
| "py_round NaN = Inl ValueError"
| "py_round _ = Inl OverflowError"

section \<open>Python operations\<close>

fun truthy :: "pyval \<Rightarrow> bool" where
  "truthy PNone = False"
| "truthy (PBool b) = b"
| "truthy (PInt i) = (i \<noteq> 0)"
| "truthy (PFloat f) = (\<not> float_is_zero f)"
| "truthy (PStr s) = (s \<noteq> [])"
| "truthy (PList xs) = (xs \<noteq> [])"
| "truthy (PDict kvs) = (kvs \<noteq> [])"

text \<open>\<^verbatim>\<open>d.get(k, default)\<close> on a dict.\<close>

definition dict_get :: "(string \<times> pyval) list \<Rightarrow> string \<Rightarrow> pyval \<Rightarrow> pyval" where
  "dict_get kvs k d = (case map_of kvs k of None \<Rightarrow> d | Some v \<Rightarrow> v)"

text \<open>\<^verbatim>\<open>x.get(k, default)\<close> on any value: only a dict has \<^verbatim>\<open>get\<close>.\<close>

fun py_get :: "pyval \<Rightarrow> string \<Rightarrow> pyval \<Rightarrow> pyerr + pyval" where
  "py_get (PDict kvs) k d = Inr (dict_get kvs k d)"
| "py_get _ k d = Inl AttributeError"

text \<open>\<^verbatim>\<open>k in x\<close> for a string literal \<open>k\<close>.\<close>

fun str_in :: "string \<Rightarrow> pyval \<Rightarrow> pyerr + bool" where
  "str_in k (PDict kvs) = Inr (k \<in> set (map fst kvs))"
| "str_in k (PStr s) = Inr (sublist k s)"
| "str_in k (PList xs) = Inr (PStr k \<in> set xs)"
| "str_in k _ = Inl TypeError"

text \<open>\<^verbatim>\<open>x[k]\<close> for a string literal \<open>k\<close>.\<close>

fun py_getitem :: "pyval \<Rightarrow> string \<Rightarrow> pyerr + pyval" where
  "py_getitem (PDict kvs) k = (case map_of kvs k of None \<Rightarrow> Inl KeyError | Some v \<Rightarrow> Inr v)"
| "py_getitem _ k = Inl TypeError"

text \<open>Iterating a value with \<^verbatim>\<open>for\<close>.\<close>

fun py_iter :: "pyval \<Rightarrow> pyerr + pyval list" where
  "py_iter (PList xs) = Inr xs"
| "py_iter (PDict kvs) = Inr (map (\<lambda>kv. PStr (fst kv)) kvs)"
| "py_iter (PStr s) = Inr (map (\<lambda>c. PStr [c]) s)"
| "py_iter _ = Inl TypeError"

subsection \<open>Numbers\<close>

text \<open>
  The int a value is (a bool is an int), and the number it stands for in a comparison,
  where an int counts with its exact value.
\<close>

fun int_of :: "pyval \<Rightarrow> int option" where
  "int_of (PBool b) = Some (if b then 1 else 0)"
| "int_of (PInt i) = Some i"
| "int_of _ = None"

fun num_of :: "pyval \<Rightarrow> pyfloat option" where
  "num_of (PBool b) = Some (Fin (if b then 1 else 0))"
| "num_of (PInt i) = Some (Fin (of_int i))"
| "num_of (PFloat f) = Some f"
| "num_of _ = None"

text \<open>A number as an operand of float arithmetic.\<close>

definition to_float :: "pyval \<Rightarrow> pyerr + pyfloat" where
  "to_float v =
     (case int_of v of
        Some i \<Rightarrow> int_to_float i
      | None \<Rightarrow> (case v of PFloat f \<Rightarrow> Inr f | _ \<Rightarrow> Inl TypeError))"

text \<open>
  \<^verbatim>\<open>a / b\<close>. Of two ints it is the double nearest to the exact quotient, and
  \<^verbatim>\<open>OverflowError\<close> when that is no finite double; otherwise both become floats.
\<close>

definition py_truediv :: "pyval \<Rightarrow> pyval \<Rightarrow> pyerr + pyfloat" where
  "py_truediv a b =
     (if num_of a = None \<or> num_of b = None then Inl TypeError
      else case (int_of a, int_of b) of
             (Some x, Some y) \<Rightarrow>
               if y = 0 then Inl ZeroDivisionError
               else (case signed_round ((x < 0) \<noteq> (y < 0)) (\<bar>of_int x\<bar> / \<bar>of_int y\<bar>) of
                       PosInf \<Rightarrow> Inl OverflowError
                     | NegInf \<Rightarrow> Inl OverflowError
                     | f \<Rightarrow> Inr f)
           | _ \<Rightarrow> bindE (to_float a) (\<lambda>x. bindE (to_float b) (\<lambda>y. float_div x y)))"

text \<open>\<^verbatim>\<open>a - b\<close>: an int of two ints, a float otherwise.\<close>

definition py_sub :: "pyval \<Rightarrow> pyval \<Rightarrow> pyerr + pyval" where
  "py_sub a b =
     (if num_of a = None \<or> num_of b = None then Inl TypeError
      else case (int_of a, int_of b) of
             (Some x, Some y) \<Rightarrow> Inr (PInt (x - y))
           | _ \<Rightarrow> bindE (to_float a) (\<lambda>x. bindE (to_float b) (\<lambda>y. Inr (PFloat (float_sub x y)))))"

text \<open>\<^verbatim>\<open>a < b\<close> and \<^verbatim>\<open>a == 0\<close>.\<close>

definition py_lt :: "pyval \<Rightarrow> pyval \<Rightarrow> pyerr + bool" where
  "py_lt a b =
     (case (num_of a, num_of b) of
        (Some x, Some y) \<Rightarrow> Inr (float_lt x y)
      | _ \<Rightarrow> Inl TypeError)"

definition py_eq_zero :: "pyval \<Rightarrow> bool" where
  "py_eq_zero v = (case num_of v of Some f \<Rightarrow> float_is_zero f | None \<Rightarrow> False)"

text \<open>\<^verbatim>\<open>float(x)\<close>.\<close>

definition py_float :: "runtime \<Rightarrow> pyval \<Rightarrow> pyerr + pyfloat" where
  "py_float rt v =
     (case v of
        PStr s \<Rightarrow> (case str_to_float rt s of None \<Rightarrow> Inl ValueError | Some f \<Rightarrow> Inr f)
      | _ \<Rightarrow> to_float v)"

text \<open>
  Equality as a set of hashable values has it: numbers by their value (\<^verbatim>\<open>1 == 1.0 == True\<close>),
  anything else with its like.
\<close>

definition py_eq :: "pyval \<Rightarrow> pyval \<Rightarrow> bool" where
  "py_eq a b =
     (case (num_of a, num_of b) of
        (Some x, Some y) \<Rightarrow> float_eq x y
      | (None, None) \<Rightarrow> a = b
      | _ \<Rightarrow> False)"

text \<open>A list or a dict cannot be looked up in a set: \<^verbatim>\<open>TypeError: unhashable type\<close>.\<close>

fun hashable :: "pyval \<Rightarrow> bool" where
  "hashable (PList xs) = False"
| "hashable (PDict kvs) = False"
| "hashable _ = True"

subsection \<open>Text\<close>

text \<open>
  \<^verbatim>\<open>s.lower()\<close>. Only ASCII letters are mapped: outside ASCII, Python's mapping gives an
  ASCII letter for two characters only (the dotted capital I, to \<open>i\<close> and a combining dot;
  the Kelvin sign, to \<open>k\<close>), and neither gives a stretch of text that a marker the code
  looks for could lie in.
\<close>

definition ascii_lower :: "char \<Rightarrow> char" where
  "ascii_lower c =
     (let n = (of_char c :: nat) in if 65 \<le> n \<and> n \<le> 90 then char_of (n + 32) else c)"

definition lower :: "string \<Rightarrow> string" where
  "lower s = map ascii_lower s"

definition digit_char :: "int \<Rightarrow> char" where
  "digit_char n = char_of (48 + n)"

text \<open>The decimal digits of an int that is not negative.\<close>

function show_digits :: "int \<Rightarrow> string" where
  "show_digits n =
     (if n < 10 then [digit_char n] else show_digits (n div 10) @ [digit_char (n mod 10)])"
  by pat_completeness auto
termination
  by (relation "measure nat") auto

declare show_digits.simps [simp del]

definition show_int :: "int \<Rightarrow> string" where
  "show_int i = (if i < 0 then CHR ''-'' # show_digits (- i) else show_digits i)"

text \<open>
  \<^verbatim>\<open>f"{x:.{d}f}"\<close> of a float: fixed point with \<open>d\<close> decimals, rounded from the exact value
  of the double, ties to even; the sign is kept when the digits round to zero.
\<close>

definition fmt_fixed :: "nat \<Rightarrow> bool \<Rightarrow> rat \<Rightarrow> string" where
  "fmt_fixed d neg a =
     (let n = round_half_even (a * 10 ^ d);
          ip = show_digits (n div 10 ^ d);
          fp = show_digits (n mod 10 ^ d)
      in (if neg then ''-'' else []) @ ip @
         (if d = 0 then [] else ''.'' @ replicate (d - length fp) CHR ''0'' @ fp))"

fun fmt_float :: "nat \<Rightarrow> pyfloat \<Rightarrow> string" where
  "fmt_float d (Fin x) = fmt_fixed d (x < 0) \<bar>x\<bar>"
| "fmt_float d NegZero = fmt_fixed d True 0"
| "fmt_float d PosInf = ''inf''"
| "fmt_float d NegInf = ''-inf''"
| "fmt_float d NaN = ''nan''"

text \<open>
  \<^verbatim>\<open>f"{v:.{d}f}"\<close> of any value: an int becomes a float first, a str has no such format,
  and neither has \<^verbatim>\<open>None\<close>, a list or a dict.
\<close>

definition py_format_f :: "nat \<Rightarrow> pyval \<Rightarrow> pyerr + string" where
  "py_format_f d v =
     (case v of
        PStr s \<Rightarrow> Inl ValueError
      | _ \<Rightarrow> bindE (to_float v) (\<lambda>f. Inr (fmt_float d f)))"

subsection \<open>\<^verbatim>\<open>str\<close> of a value\<close>

definition hex_char :: "nat \<Rightarrow> char" where
  "hex_char n = (if n < 10 then char_of (48 + n) else char_of (87 + n))"

text \<open>An ASCII character inside the quotes \<open>q\<close>.\<close>

definition repr_char :: "char \<Rightarrow> char \<Rightarrow> string" where
  "repr_char q c =
     (let n = (of_char c :: nat)
      in if c = q \<or> c = CHR 0x5C then [CHR 0x5C, c]
         else if n = 10 then [CHR 0x5C, CHR ''n'']
         else if n = 13 then [CHR 0x5C, CHR ''r'']
         else if n = 9 then [CHR 0x5C, CHR ''t'']
         else if n < 32 \<or> n = 127 then [CHR 0x5C, CHR ''x'', hex_char (n div 16), hex_char (n mod 16)]
         else [c])"

text \<open>
  The text between the quotes: ASCII characters one by one, each stretch of bytes
  outside ASCII (held in \<open>run\<close> until it ends) as the runtime writes it.
\<close>

fun repr_scan :: "runtime \<Rightarrow> char \<Rightarrow> string \<Rightarrow> string \<Rightarrow> string" where
  "repr_scan rt q run [] = (if run = [] then [] else repr_non_ascii rt run)"
| "repr_scan rt q run (c # cs) =
     (if 128 \<le> (of_char c :: nat) then repr_scan rt q (run @ [c]) cs
      else (if run = [] then [] else repr_non_ascii rt run) @ repr_char q c @ repr_scan rt q [] cs)"

text \<open>
  \<^verbatim>\<open>repr\<close> of a str: single quotes, unless the text has a single quote and no double
  quote.
\<close>

definition repr_str :: "runtime \<Rightarrow> string \<Rightarrow> string" where
  "repr_str rt s =
     (let q = (if CHR 0x27 \<in> set s \<and> CHR 0x22 \<notin> set s then CHR 0x22 else CHR 0x27)
      in [q] @ repr_scan rt q [] s @ [q])"

fun join :: "string \<Rightarrow> string list \<Rightarrow> string" where
  "join sep [] = []"
| "join sep [x] = x"
| "join sep (x # y # ys) = x @ sep @ join sep (y # ys)"

fun py_repr :: "runtime \<Rightarrow> pyval \<Rightarrow> string" where
  "py_repr rt PNone = ''None''"
| "py_repr rt (PBool b) = (if b then ''True'' else ''False'')"
| "py_repr rt (PInt i) = show_int i"
| "py_repr rt (PFloat f) = float_repr rt f"
| "py_repr rt (PStr s) = repr_str rt s"
| "py_repr rt (PList xs) = ''['' @ join '', '' (map (py_repr rt) xs) @ '']''"
| "py_repr rt (PDict kvs) =
     ''{'' @ join '', '' (map (\<lambda>kv. repr_str rt (fst kv) @ '': '' @ py_repr rt (snd kv)) kvs) @ ''}''"

declare py_repr.simps [simp del]

text \<open>\<^verbatim>\<open>str(v)\<close>: a str is its own text, anything else is written as \<^verbatim>\<open>repr\<close> writes it.\<close>

definition py_str :: "runtime \<Rightarrow> pyval \<Rightarrow> string" where
  "py_str rt v = (case v of PStr s \<Rightarrow> s | _ \<Rightarrow> py_repr rt v)"

section \<open>The formatters of \<^verbatim>\<open>DexscannerMonitor\<close>\<close>

definition format_age :: "runtime \<Rightarrow> pyval \<Rightarrow> string" where
  "format_age rt timestamp = (if \<not> truthy timestamp then ''Unknown'' else age_text rt timestamp)"

text \<open>
  \<^verbatim>\<open>_format_number\<close>. Whatever is raised inside its \<^verbatim>\<open>try\<close> (by \<^verbatim>\<open>float\<close>, for a value that
  is no number or an int too large) ends in \<^verbatim>\<open>return "0"\<close>.
\<close>

definition scaled :: "nat \<Rightarrow> pyfloat \<Rightarrow> rat \<Rightarrow> string \<Rightarrow> string" where
  "scaled decimals x divisor letter =
     (case float_div x (Fin divisor) of
        Inl e \<Rightarrow> ''0''
      | Inr y \<Rightarrow> fmt_float decimals y @ letter)"

definition format_number :: "runtime \<Rightarrow> pyval \<Rightarrow> nat \<Rightarrow> string" where
  "format_number rt number decimals =
     (if number = PNone then ''0''
      else case py_float rt number of
             Inl e \<Rightarrow> ''0''
           | Inr x \<Rightarrow>
               if float_lt x (Fin 1000) then fmt_float decimals x
               else if float_lt x (Fin 1000000) then scaled decimals x 1000 ''K''
               else if float_lt x (Fin 1000000000) then scaled decimals x 1000000 ''M''
               else scaled decimals x 1000000000 ''B'')"

text \<open>The body of the \<^verbatim>\<open>try\<close> of \<^verbatim>\<open>_calculate_percentage\<close>, and the function with its \<^verbatim>\<open>except\<close>.\<close>

definition calculate_percentage_try :: "pyval \<Rightarrow> pyval \<Rightarrow> pyerr + pyval" where
  "calculate_percentage_try part whole =
     (if py_eq_zero whole then Inr (PInt 0)
      else bindE (py_truediv part whole) (\<lambda>q.
             bindE (py_round (float_mul q (Fin 100))) (\<lambda>n. Inr (PInt n))))"

definition calculate_percentage :: "pyval \<Rightarrow> pyval \<Rightarrow> pyval" where
  "calculate_percentage part whole =
     (case calculate_percentage_try part whole of Inl e \<Rightarrow> PInt 0 | Inr v \<Rightarrow> v)"

definition calculate_multiplier_try :: "pyval \<Rightarrow> pyval \<Rightarrow> pyerr + string" where
  "calculate_multiplier_try current reference =
     (if py_eq_zero reference then Inr ''1x''
      else bindE (py_truediv current reference) (\<lambda>multiplier. Inr (fmt_float 1 multiplier @ ''x'')))"

definition calculate_multiplier :: "pyval \<Rightarrow> pyval \<Rightarrow> string" where
  "calculate_multiplier current reference =
     (case calculate_multiplier_try current reference of Inl e \<Rightarrow> ''1x'' | Inr v \<Rightarrow> v)"

section \<open>\<^verbatim>\<open>SecurityValidator.validate_token\<close>\<close>

record security_data =
  has_honey_pot :: bool
  has_mint_function :: bool
  has_proxy :: bool
  has_suspicious_holders :: bool

text \<open>
  The second check of \<^verbatim>\<open>validate_token\<close>, of the holder concentration: whether it sets
  the flag, or the exception it raises.
\<close>

definition holders_check :: "runtime \<Rightarrow> pyval \<Rightarrow> pyerr + bool" where
  "holders_check rt token_details =
     bindE (str_in ''holders'' token_details) (\<lambda>has_holders.
       if \<not> has_holders then Inr False
       else bindE (py_getitem token_details ''holders'') (\<lambda>holders.
         bindE (str_in ''top10'' holders) (\<lambda>has_top10.
           if \<not> has_top10 then Inr False
           else bindE (py_getitem holders ''top10'') (\<lambda>top10.
             case top10 of
               PStr s \<Rightarrow>
                 (case str_to_float rt (filter (\<lambda>c. c \<noteq> CHR ''%'') s) of
                    None \<Rightarrow> Inl ValueError
                  | Some top10_percentage \<Rightarrow> Inr (float_lt (Fin 80) top10_percentage))
             | _ \<Rightarrow> Inl AttributeError))))"

definition validate_token :: "runtime \<Rightarrow> pyval \<Rightarrow> pyerr + security_data" where
  "validate_token rt token_details =
     (let text = lower (py_str rt token_details);
          has_mint = (sublist ''mint'' text \<and> sublist ''enabled'' text)
      in bindE (holders_check rt token_details) (\<lambda>suspicious.
           Inr \<lparr>has_honey_pot = False, has_mint_function = has_mint, has_proxy = False,
                has_suspicious_holders = suspicious\<rparr>))"

section \<open>\<^verbatim>\<open>DexscannerMonitor.parse_token_details\<close>\<close>

text \<open>The two values of the \<^verbatim>\<open>mint_enabled\<close> field: "No" and "Yes", each followed by a space and an emoji.\<close>

definition mint_no :: string where
  "mint_no = ''No '' @ [CHR 0xE2, CHR 0x9C, CHR 0x85]"

definition mint_yes :: string where
  "mint_yes = ''Yes '' @ [CHR 0xE2, CHR 0x9A, CHR 0xA0, CHR 0xEF, CHR 0xB8, CHR 0x8F]"

record performance_data =
  price :: pyval
  market_cap :: pyval
  volume_24h :: pyval
  holders :: pyval

definition source_of :: "string \<Rightarrow> string option" where
  "source_of name_lower =
     (if sublist ''pump.fun'' name_lower then Some ''pump.fun''
      else if sublist ''pump.swap'' name_lower then Some ''pump.swap''
      else None)"

text \<open>The source filter at the head of the function: the platform, \<open>None\<close> or an error.\<close>

definition find_source :: "pyval \<Rightarrow> pyerr + string option" where
  "find_source token_raw =
     bindE (str_in ''name'' token_raw) (\<lambda>has_name.
       if \<not> has_name then Inr None
       else bindE (py_getitem token_raw ''name'') (\<lambda>name.
         case name of
           PStr s \<Rightarrow> Inr (source_of (lower s))
         | _ \<Rightarrow> Inl AttributeError))"

definition security_warnings :: "security_data \<Rightarrow> (string \<times> pyval) list" where
  "security_warnings sd =
     (if has_honey_pot sd \<or> has_mint_function sd \<or> has_proxy sd \<or> has_suspicious_holders sd
      then [(''security_warnings'', PList
              ((if has_honey_pot sd then [PStr ''Potential honeypot detected''] else []) @
               (if has_mint_function sd then [PStr ''Token has mint function enabled''] else []) @
               (if has_proxy sd then [PStr ''Contract may have proxy capabilities''] else []) @
               (if has_suspicious_holders sd
                then [PStr ''Suspicious holder concentration detected''] else [])))]
      else [])"

definition token_fields :: "runtime \<Rightarrow> string \<Rightarrow> (string \<times> pyval) list \<Rightarrow> (string \<times> pyval) list
    \<Rightarrow> (string \<times> pyval) list" where
  "token_fields rt source tr dr =
     [(''id'', dict_get tr ''id'' (PStr [])),
      (''pair_name'', dict_get tr ''name'' (PStr ''Unknown'')),
      (''deployer'', dict_get dr ''deployer'' (PStr ''Unknown'')),
      (''owner_renounced'', dict_get dr ''ownerRenounced'' (PBool False)),
      (''chain'', PStr ''SOL''),
      (''age'', PStr (format_age rt (dict_get tr ''createdAt'' PNone))),
      (''launch_time'', dict_get tr ''createdAt'' PNone),
      (''mint_enabled'',
         PStr (if \<not> truthy (dict_get dr ''mintEnabled'' (PBool True)) then mint_no else mint_yes)),
      (''liq_burned'', dict_get dr ''liquidityBurned'' (PInt 0)),
      (''market_cap'', PStr (format_number rt (dict_get tr ''marketCap'' (PInt 0)) 1)),
      (''liquidity'', PStr (format_number rt (dict_get tr ''liquidity'' (PInt 0)) 1)),
      (''liq_percentage'',
         calculate_percentage (dict_get tr ''liquidity'' (PInt 0)) (dict_get tr ''marketCap'' (PInt 0))),
      (''price'', PStr (format_number rt (dict_get tr ''price'' (PInt 0)) 8)),
      (''price_change_24h'', dict_get tr ''priceChange24h'' (PInt 0)),
      (''volume_24h'', PStr (format_number rt (dict_get tr ''volume24h'' (PInt 0)) 1)),
      (''buys'', dict_get dr ''buys24h'' (PInt 0)),
      (''sells'', dict_get dr ''sells24h'' (PInt 0)),
      (''launch_mc'', PStr (format_number rt (dict_get dr ''launchMarketCap'' (PInt 0)) 1)),
      (''launch_mc_multiplier'',
         PStr (calculate_multiplier (dict_get tr ''marketCap'' (PInt 0))
                 (dict_get dr ''launchMarketCap'' (PInt 0)))),
      (''ath'', PStr (format_number rt (dict_get dr ''athMarketCap'' (PInt 0)) 1)),
      (''ath_multiplier'',
         PStr (calculate_multiplier (dict_get dr ''athMarketCap'' (PInt 0))
                 (dict_get tr ''marketCap'' (PInt 0)))),
      (''source'', PStr source),
      (''source_link'', PStr (''https://'' @ source)),
      (''transaction_count'', dict_get dr ''transactionCount'' (PInt 0)),
      (''holders_count'', dict_get dr ''holdersCount'' (PInt 0)),
      (''top10_percentage'', dict_get dr ''top10HoldersPercentage'' (PInt 0)),
      (''airdrops'', dict_get dr ''airdropsCount'' (PInt 0)),
      (''airdrops_percentage'', dict_get dr ''airdropsPercentage'' (PInt 0)),
      (''block0_snipes_percentage'', dict_get dr ''block0SnipesPercentage'' (PInt 0)),
      (''block0_snipes_amount'', dict_get dr ''block0SnipesAmount'' (PInt 0)),
      (''fresh_wallets'', dict_get dr ''freshWalletsCount'' (PInt 0)),
      (''fresh_wallets_percentage'', dict_get dr ''freshWalletsPercentage'' (PInt 0)),
      (''team_wallets_percentage'', dict_get dr ''teamWalletsPercentage'' (PInt 0)),
      (''team_wallets_amount'', dict_get dr ''teamWalletsAmount'' (PInt 0)),
      (''deployer_amount'', dict_get dr ''deployerAmount'' (PInt 0)),
      (''deployer_percentage'', dict_get dr ''deployerPercentage'' (PInt 0)),
      (''website'', dict_get dr ''website'' (PStr (''https://'' @ source))),
      (''initial_mc'', dict_get tr ''marketCap'' (PInt 0)),
      (''initial_liq'', dict_get tr ''liquidity'' (PInt 0))]"

definition performance_fields :: "(string \<times> pyval) list \<Rightarrow> (string \<times> pyval) list \<Rightarrow> performance_data" where
  "performance_fields tr dr =
     \<lparr>price = dict_get tr ''price'' (PInt 0),
      market_cap = dict_get tr ''marketCap'' (PInt 0),
      volume_24h = dict_get tr ''volume24h'' (PInt 0),
      holders = dict_get dr ''holdersCount'' (PInt 0)\<rparr>"

definition parse_token_details ::
    "runtime \<Rightarrow> pyval \<Rightarrow> pyval
       \<Rightarrow> pyerr + ((string \<times> pyval) list \<times> performance_data \<times> security_data) option" where
  "parse_token_details rt token_raw details_arg =
     (let details_raw = (if \<not> truthy details_arg then PDict [] else details_arg)
      in bindE (find_source token_raw) (\<lambda>source_opt.
           case source_opt of
             None \<Rightarrow> Inr None
           | Some source \<Rightarrow>
               (case token_raw of
                  PDict tr \<Rightarrow>
                    (case details_raw of
                       PDict dr \<Rightarrow>
                         bindE (validate_token rt details_raw) (\<lambda>sd.
                           Inr (Some (token_fields rt source tr dr @ security_warnings sd,
                                      performance_fields tr dr, sd)))
                     | _ \<Rightarrow> Inl AttributeError)
                | _ \<Rightarrow> Inl AttributeError)))"

section \<open>\<^verbatim>\<open>Database\<close>\<close>

text \<open>
  The three tables, rows in insertion order. A timestamp is the number of microseconds
  since the epoch (the code stores ISO strings of \<^verbatim>\<open>datetime.now()\<close>, whose order is the
  order of time); every operation takes the value of \<^verbatim>\<open>datetime.now()\<close> it reads. A cell
  holds what SQLite stores and Python reads back: the bound value after the conversion
  to the affinity of its column.
\<close>

record token_row =
  tk_id :: pyval
  tk_pair_name :: pyval
  tk_deployer :: pyval
  tk_owner_renounced :: int
  tk_launch_time :: pyval
  tk_mint_enabled :: int
  tk_liq_burned :: pyval
  tk_chain :: pyval
  tk_initial_mc :: pyval
  tk_initial_liq :: pyval
  tk_website :: pyval
  tk_source :: pyval
  tk_detected_at :: int
  tk_is_safe :: int

record performance_row =
  pf_id :: pyval
  pf_timestamp :: int
  pf_price :: pyval
  pf_market_cap :: pyval
  pf_volume_24h :: pyval
  pf_holders :: pyval

record security_row =
  sc_id :: pyval
  sc_has_honey_pot :: bool
  sc_has_mint_function :: bool
  sc_has_proxy :: bool
  sc_has_suspicious_holders :: bool
  sc_check_time :: int

record database =
  tokens :: "token_row list"
  token_performance :: "performance_row list"
  security_checks :: "security_row list"

text \<open>
  Binding a parameter: \<^verbatim>\<open>sqlite3\<close> takes \<^verbatim>\<open>None\<close>, numbers and strings, refuses a
  list or a dict, and refuses an int outside 64 bits.
\<close>

fun bind_param :: "pyval \<Rightarrow> pyerr option" where
  "bind_param (PList xs) = Some BindError"
| "bind_param (PDict kvs) = Some BindError"
| "bind_param (PInt i) =
     (if - 9223372036854775808 \<le> i \<and> i < 9223372036854775808 then None else Some OverflowError)"
| "bind_param _ = None"

fun bind_params :: "pyval list \<Rightarrow> pyerr option" where
  "bind_params [] = None"
| "bind_params (v # vs) = (case bind_param v of Some e \<Rightarrow> Some e | None \<Rightarrow> bind_params vs)"

text \<open>
  The affinities of the columns, on a value that was bound. \<^verbatim>\<open>TEXT\<close> (the ids, the
  names): a number becomes its text. \<^verbatim>\<open>NUMERIC\<close> (the launch time): a text that looks
  like a number becomes that number, and a float with an integral value that fits
  becomes an int. \<^verbatim>\<open>REAL\<close> (the price, the market cap, the volume): as \<^verbatim>\<open>NUMERIC\<close>, and
  an int becomes a float. \<^verbatim>\<open>INTEGER\<close> (the holders) is \<^verbatim>\<open>NUMERIC\<close>. A \<^verbatim>\<open>nan\<close> is stored
  as \<^verbatim>\<open>NULL\<close>.
\<close>

definition text_affinity :: "runtime \<Rightarrow> pyval \<Rightarrow> pyval" where
  "text_affinity rt v =
     (case v of
        PBool b \<Rightarrow> PStr (if b then ''1'' else ''0'')
      | PInt i \<Rightarrow> PStr (show_int i)
      | PFloat f \<Rightarrow> (if f = NaN then PNone else PStr (sqlite_float_text rt f))
      | _ \<Rightarrow> v)"

definition float_to_numeric :: "pyfloat \<Rightarrow> pyval" where
  "float_to_numeric f =
     (case f of
        NaN \<Rightarrow> PNone
      | NegZero \<Rightarrow> PInt 0
      | Fin x \<Rightarrow>
          if x = of_int \<lfloor>x\<rfloor> \<and> - 9223372036854775808 \<le> \<lfloor>x\<rfloor> \<and> \<lfloor>x\<rfloor> < 9223372036854775808
          then PInt \<lfloor>x\<rfloor> else PFloat f
      | _ \<Rightarrow> PFloat f)"

definition numeric_affinity :: "runtime \<Rightarrow> pyval \<Rightarrow> pyval" where
  "numeric_affinity rt v =
     (case v of
        PBool b \<Rightarrow> PInt (if b then 1 else 0)
      | PFloat f \<Rightarrow> float_to_numeric f
      | PStr s \<Rightarrow>
          (case sqlite_numeric rt s of
             None \<Rightarrow> v
           | Some (PFloat f) \<Rightarrow> float_to_numeric f
           | Some n \<Rightarrow> n)
      | _ \<Rightarrow> v)"

definition real_affinity :: "runtime \<Rightarrow> pyval \<Rightarrow> pyval" where
  "real_affinity rt v =
     (case v of
        PBool b \<Rightarrow> PFloat (Fin (if b then 1 else 0))
      | PInt i \<Rightarrow> PFloat (round_double (of_int i))
      | PFloat f \<Rightarrow> (if f = NaN then PNone else v)
      | PStr s \<Rightarrow>
          (case sqlite_numeric rt s of
             None \<Rightarrow> v
           | Some (PInt i) \<Rightarrow> PFloat (round_double (of_int i))
           | Some n \<Rightarrow> n)
      | _ \<Rightarrow> v)"

text \<open>
  SQL \<^verbatim>\<open>id = ?\<close> on a \<^verbatim>\<open>TEXT\<close> column: the parameter is converted as the stored ids
  were, and \<^verbatim>\<open>NULL\<close> equals nothing.
\<close>

definition sql_eq :: "pyval \<Rightarrow> pyval \<Rightarrow> bool" where
  "sql_eq a b = (a \<noteq> PNone \<and> b \<noteq> PNone \<and> a = b)"

definition id_matches :: "runtime \<Rightarrow> pyval \<Rightarrow> pyval \<Rightarrow> bool" where
  "id_matches rt stored token_id = sql_eq stored (text_affinity rt token_id)"

definition token_exists :: "runtime \<Rightarrow> database \<Rightarrow> pyval \<Rightarrow> pyerr + bool" where
  "token_exists rt d token_id =
     (case bind_param token_id of
        Some e \<Rightarrow> Inl e
      | None \<Rightarrow> Inr (list_ex (\<lambda>r. id_matches rt (tk_id r) token_id) (tokens d)))"

text \<open>The keys \<^verbatim>\<open>add_token\<close> reads from \<^verbatim>\<open>token_data\<close>; a missing one is a \<^verbatim>\<open>KeyError\<close>.\<close>

definition add_token_keys :: "string list" where
  "add_token_keys =
     [''id'', ''pair_name'', ''deployer'', ''owner_renounced'', ''launch_time'', ''mint_enabled'',
      ''liq_burned'', ''chain'', ''initial_mc'', ''initial_liq'', ''website'', ''source'']"

definition add_token ::
    "runtime \<Rightarrow> database \<Rightarrow> (string \<times> pyval) list \<Rightarrow> int \<Rightarrow> pyerr + database" where
  "add_token rt d token_data now =
     (if \<not> list_all (\<lambda>k. k \<in> set (map fst token_data)) add_token_keys then Inl KeyError
      else
        case bind_params
               [dict_get token_data ''id'' PNone, dict_get token_data ''pair_name'' PNone,
                dict_get token_data ''deployer'' PNone, dict_get token_data ''launch_time'' PNone,
                dict_get token_data ''liq_burned'' PNone, dict_get token_data ''chain'' PNone,
                dict_get token_data ''initial_mc'' PNone, dict_get token_data ''initial_liq'' PNone,
                dict_get token_data ''website'' PNone, dict_get token_data ''source'' PNone] of
          Some e \<Rightarrow> Inl e
        | None \<Rightarrow>
            if list_ex (\<lambda>r. id_matches rt (tk_id r) (dict_get token_data ''id'' PNone)) (tokens d)
            then Inl IntegrityError
            else Inr (d\<lparr>tokens := tokens d @
                [\<lparr>tk_id = text_affinity rt (dict_get token_data ''id'' PNone),
                  tk_pair_name = text_affinity rt (dict_get token_data ''pair_name'' PNone),
                  tk_deployer = text_affinity rt (dict_get token_data ''deployer'' PNone),
                  tk_owner_renounced =
                    (if truthy (dict_get token_data ''owner_renounced'' PNone) then 1 else 0),
                  tk_launch_time = numeric_affinity rt (dict_get token_data ''launch_time'' PNone),
                  tk_mint_enabled =
                    (if dict_get token_data ''mint_enabled'' PNone = PStr mint_no then 0 else 1),
                  tk_liq_burned = real_affinity rt (dict_get token_data ''liq_burned'' PNone),
                  tk_chain = text_affinity rt (dict_get token_data ''chain'' PNone),
                  tk_initial_mc = real_affinity rt (dict_get token_data ''initial_mc'' PNone),
                  tk_initial_liq = real_affinity rt (dict_get token_data ''initial_liq'' PNone),
                  tk_website = text_affinity rt (dict_get token_data ''website'' PNone),
                  tk_source = text_affinity rt (dict_get token_data ''source'' PNone),
                  tk_detected_at = now,
                  tk_is_safe = 0\<rparr>]\<rparr>))"

definition update_token_performance ::
    "runtime \<Rightarrow> database \<Rightarrow> pyval \<Rightarrow> performance_data \<Rightarrow> int \<Rightarrow> pyerr + database" where
  "update_token_performance rt d token_id pd now =
     (case bind_params [token_id, price pd, market_cap pd, volume_24h pd, holders pd] of
        Some e \<Rightarrow> Inl e
      | None \<Rightarrow>
          if list_ex (\<lambda>r. id_matches rt (pf_id r) token_id \<and> pf_timestamp r = now)
               (token_performance d)
          then Inl IntegrityError
          else Inr (d\<lparr>token_performance := token_performance d @
                        [\<lparr>pf_id = text_affinity rt token_id, pf_timestamp = now,
                          pf_price = real_affinity rt (price pd),
                          pf_market_cap = real_affinity rt (market_cap pd),
                          pf_volume_24h = real_affinity rt (volume_24h pd),
                          pf_holders = numeric_affinity rt (holders pd)\<rparr>]\<rparr>))"

definition update_security_check ::
    "runtime \<Rightarrow> database \<Rightarrow> pyval \<Rightarrow> security_data \<Rightarrow> int \<Rightarrow> pyerr + database" where
  "update_security_check rt d token_id sd now =
     (case bind_param token_id of
        Some e \<Rightarrow> Inl e
      | None \<Rightarrow>
          let is_safe = \<not> (has_honey_pot sd \<or> has_mint_function sd \<or> has_proxy sd
                           \<or> has_suspicious_holders sd)
          in Inr (d\<lparr>security_checks :=
                       filter (\<lambda>r. \<not> id_matches rt (sc_id r) token_id) (security_checks d) @
                       [\<lparr>sc_id = text_affinity rt token_id,
                         sc_has_honey_pot = has_honey_pot sd,
                         sc_has_mint_function = has_mint_function sd,
                         sc_has_proxy = has_proxy sd,
                         sc_has_suspicious_holders = has_suspicious_holders sd,
                         sc_check_time = now\<rparr>],
                     tokens :=
                       map (\<lambda>r. if id_matches rt (tk_id r) token_id
                                 then r\<lparr>tk_is_safe := (if is_safe then 1 else 0)\<rparr> else r)
                           (tokens d)\<rparr>))"

definition us_per_hour :: int where
  "us_per_hour = 3600000000"

text \<open>\<^verbatim>\<open>get_token_performance_history\<close>: \<open>None\<close> when no row is in the window.\<close>

definition get_token_performance_history ::
    "runtime \<Rightarrow> database \<Rightarrow> pyval \<Rightarrow> int \<Rightarrow> int \<Rightarrow> performance_row list option" where
  "get_token_performance_history rt d token_id hours now =
     (let results =
            sort_key pf_timestamp
              (filter (\<lambda>r. id_matches rt (pf_id r) token_id
                            \<and> now - hours * us_per_hour \<le> pf_timestamp r)
                 (token_performance d))
      in if results = [] then None else Some results)"

record tracked_token =
  tt_id :: pyval
  tt_pair_name :: pyval
  tt_detected_at :: int

definition get_tokens_for_performance_check :: "database \<Rightarrow> int \<Rightarrow> tracked_token list" where
  "get_tokens_for_performance_check d now =
     map (\<lambda>r. \<lparr>tt_id = tk_id r, tt_pair_name = tk_pair_name r, tt_detected_at = tk_detected_at r\<rparr>)
       (filter (\<lambda>r. now - 7 * 24 * us_per_hour \<le> tk_detected_at r) (tokens d))"

section \<open>\<^verbatim>\<open>DexscannerAPI\<close>: fetching with retries\<close>

text \<open>
  What one HTTP request comes to: a decoded JSON body, \<^verbatim>\<open>requests.Timeout\<close>, or any
  other \<^verbatim>\<open>requests.RequestException\<close> (a refused connection, the \<^verbatim>\<open>HTTPError\<close> of
  \<^verbatim>\<open>raise_for_status\<close>, a body that is not JSON). The network is the sequence of the
  outcomes of the requests made, in order; a fetch starts at request number \<open>base\<close>.
\<close>

datatype outcome = Response pyval | Timeout | RequestFailed

record fetch =
  fetched :: pyval
  slept :: "nat list"
  requests_made :: nat

function new_listings_loop :: "(nat \<Rightarrow> outcome) \<Rightarrow> nat \<Rightarrow> nat \<Rightarrow> nat \<Rightarrow> nat list \<Rightarrow> fetch" where
  "new_listings_loop net base max_retries retries sleeps =
     (if retries < max_retries then
        (case net (base + retries) of
           Response v \<Rightarrow> \<lparr>fetched = v, slept = sleeps, requests_made = retries + 1\<rparr>
         | Timeout \<Rightarrow>
             new_listings_loop net base max_retries (retries + 1)
               (sleeps @ [3 + (retries + 1) * 3])
         | RequestFailed \<Rightarrow> \<lparr>fetched = PNone, slept = sleeps, requests_made = retries + 1\<rparr>)
      else \<lparr>fetched = PNone, slept = sleeps, requests_made = retries\<rparr>)"
  by pat_completeness auto
termination
  by (relation "measure (\<lambda>(net, base, max_retries, retries, sleeps). max_retries - retries)") auto

declare new_listings_loop.simps [simp del]

definition get_new_listings :: "(nat \<Rightarrow> outcome) \<Rightarrow> nat \<Rightarrow> nat \<Rightarrow> fetch" where
  "get_new_listings net base max_retries = new_listings_loop net base max_retries 0 []"

function token_details_loop :: "(nat \<Rightarrow> outcome) \<Rightarrow> nat \<Rightarrow> nat \<Rightarrow> nat \<Rightarrow> nat list \<Rightarrow> fetch" where
  "token_details_loop net base max_retries retries sleeps =
     (if retries < max_retries then
        (case net (base + retries) of
           Response v \<Rightarrow> \<lparr>fetched = v, slept = sleeps, requests_made = retries + 1\<rparr>
         | Timeout \<Rightarrow>
             token_details_loop net base max_retries (retries + 1)
               (sleeps @ [2 ^ (retries + 1)])
         | RequestFailed \<Rightarrow> \<lparr>fetched = PNone, slept = sleeps, requests_made = retries + 1\<rparr>)
      else \<lparr>fetched = PNone, slept = sleeps, requests_made = retries\<rparr>)"
  by pat_completeness auto
termination
  by (relation "measure (\<lambda>(net, base, max_retries, retries, sleeps). max_retries - retries)") auto

declare token_details_loop.simps [simp del]

definition get_token_details :: "(nat \<Rightarrow> outcome) \<Rightarrow> nat \<Rightarrow> nat \<Rightarrow> fetch" where
  "get_token_details net base max_retries = token_details_loop net base max_retries 0 []"

section \<open>\<^verbatim>\<open>TelegramNotifier\<close>: the messages\<close>

text \<open>
  A message is modelled by the values its text is rendered from, not by the text.
  \<^verbatim>\<open>format_token_message\<close> reads these keys of \<^verbatim>\<open>token_data\<close>; its test
  \<^verbatim>\<open>hasattr(token_data, 'security_warnings')\<close> is false of every dict, so the warnings
  are never rendered.
\<close>

definition token_message_keys :: "string list" where
  "token_message_keys =
     [''pair_name'', ''deployer'', ''owner_renounced'', ''chain'', ''age'', ''mint_enabled'',
      ''liq_burned'', ''market_cap'', ''liquidity'', ''liq_percentage'', ''price_change_24h'',
      ''volume_24h'', ''buys'', ''sells'', ''price'', ''launch_mc'', ''launch_mc_multiplier'',
      ''ath'', ''ath_multiplier'', ''source_link'', ''transaction_count'', ''holders_count'',
      ''top10_percentage'', ''airdrops'', ''airdrops_percentage'', ''block0_snipes_percentage'',
      ''block0_snipes_amount'', ''fresh_wallets'', ''fresh_wallets_percentage'',
      ''team_wallets_percentage'', ''team_wallets_amount'', ''deployer_amount'',
      ''deployer_percentage'']"

definition format_token_message :: "(string \<times> pyval) list \<Rightarrow> pyerr + (string \<times> pyval) list" where
  "format_token_message token_data =
     (if \<not> list_all (\<lambda>k. k \<in> set (map fst token_data)) token_message_keys then Inl KeyError
      else Inr (map (\<lambda>k. (k, dict_get token_data k PNone)) token_message_keys))"

record performance_update =
  pu_pair_name :: pyval
  pu_current_price :: string
  pu_price_change :: string
  pu_market_cap :: pyval
  pu_holders :: pyval
  pu_volume_24h :: pyval
  pu_detected_at :: int

text \<open>
  \<^verbatim>\<open>format_performance_update\<close>. Comparing, subtracting or dividing a price that is
  not a number is a \<^verbatim>\<open>TypeError\<close>, and so is rendering \<^verbatim>\<open>None\<close> with \<^verbatim>\<open>.8f\<close>;
  rendering a string with it is a \<^verbatim>\<open>ValueError\<close>; reading the last sample of an empty
  history is an \<^verbatim>\<open>IndexError\<close>.
\<close>

definition price_change_of :: "pyval \<Rightarrow> pyval \<Rightarrow> pyerr + pyval" where
  "price_change_of first_price current_price =
     bindE (py_lt (PInt 0) first_price) (\<lambda>positive.
       if positive
       then bindE (py_sub current_price first_price) (\<lambda>difference.
              bindE (py_truediv difference first_price) (\<lambda>q.
                Inr (PFloat (float_mul q (Fin 100)))))
       else Inr (PInt 0))"

definition format_performance_update ::
    "tracked_token \<Rightarrow> performance_row list \<Rightarrow> pyerr + performance_update" where
  "format_performance_update token_data performance_data =
     (let first_price = (if performance_data = [] then PInt 0 else pf_price (hd performance_data));
          current_price = (if performance_data = [] then PInt 0 else pf_price (last performance_data))
      in bindE (price_change_of first_price current_price) (\<lambda>price_change.
           bindE (py_format_f 8 current_price) (\<lambda>current_text.
             bindE (py_format_f 2 price_change) (\<lambda>change_text.
               if performance_data = [] then Inl IndexError
               else Inr \<lparr>pu_pair_name = tt_pair_name token_data,
                         pu_current_price = current_text,
                         pu_price_change = change_text,
                         pu_market_cap = pf_market_cap (last performance_data),
                         pu_holders = pf_holders (last performance_data),
                         pu_volume_24h = pf_volume_24h (last performance_data),
                         pu_detected_at = tt_detected_at token_data\<rparr>))))"

section \<open>\<^verbatim>\<open>DexscannerMonitor\<close>: the two loops\<close>

text \<open>
  The world a loop runs in: the outcomes of its HTTP requests, the values of its
  readings of \<^verbatim>\<open>datetime.now()\<close>, and the runtime. The state of the monitor: the
  database, the set \<^verbatim>\<open>processed_tokens\<close>, how many requests and clock readings were
  made, and the trace of what was done. An entry of the trace names the token id the
  loop was working on (a listing's \<^verbatim>\<open>token.get("id")\<close>) and the call made for it;
  \<^verbatim>\<open>send_message\<close> catches its own request failure and its result is not used.
\<close>

datatype message =
    TokenMessage "(string \<times> pyval) list"
  | PerformanceMessage performance_update

datatype action =
    GetDetails
  | AddToken
  | UpdatePerformance
  | UpdateSecurity
  | SendMessage message

record world =
  net :: "nat \<Rightarrow> outcome"
  clock :: "nat \<Rightarrow> int"
  rt :: runtime

record monitor =
  db :: database
  processed_tokens :: "pyval set"
  n_requests :: nat
  n_clock :: nat
  trace :: "(pyval \<times> action) list"

definition CHECK_INTERVAL :: nat where
  "CHECK_INTERVAL = 15"

definition PERFORMANCE_INTERVALS :: "int list" where
  "PERFORMANCE_INTERVALS = [1, 6, 24]"

text \<open>\<^verbatim>\<open>token_id in self.processed_tokens\<close>, for a hashable id.\<close>

definition in_processed :: "monitor \<Rightarrow> pyval \<Rightarrow> bool" where
  "in_processed st token_id = (\<exists>x \<in> processed_tokens st. py_eq x token_id)"

definition did :: "pyval \<Rightarrow> action \<Rightarrow> monitor \<Rightarrow> monitor" where
  "did token_id a st = st\<lparr>trace := trace st @ [(token_id, a)]\<rparr>"

text \<open>Reading \<^verbatim>\<open>datetime.now()\<close>.\<close>

definition tick :: "monitor \<Rightarrow> monitor" where
  "tick st = st\<lparr>n_clock := n_clock st + 1\<rparr>"

text \<open>
  The end of the body of the loop of \<^verbatim>\<open>check_new_listings\<close>: the three writes and the
  notification. The result is the exception that leaves the body, if any, and the state.
\<close>

definition store_and_notify ::
    "world \<Rightarrow> pyval \<Rightarrow> (string \<times> pyval) list \<Rightarrow> performance_data \<Rightarrow> security_data \<Rightarrow> monitor
       \<Rightarrow> pyerr option \<times> monitor" where
  "store_and_notify w token_id token_data pd sd st =
     (let st1 = tick (did token_id AddToken st)
      in case add_token (rt w) (db st) token_data (clock w (n_clock st)) of
           Inl e \<Rightarrow> (Some e, st1)
         | Inr d1 \<Rightarrow>
             (let st2 = tick (did token_id UpdatePerformance (st1\<lparr>db := d1\<rparr>))
              in case update_token_performance (rt w) d1 token_id pd (clock w (n_clock st1)) of
                   Inl e \<Rightarrow> (Some e, st2)
                 | Inr d2 \<Rightarrow>
                     (let st3 = tick (did token_id UpdateSecurity (st2\<lparr>db := d2\<rparr>))
                      in case update_security_check (rt w) d2 token_id sd (clock w (n_clock st2)) of
                           Inl e \<Rightarrow> (Some e, st3)
                         | Inr d3 \<Rightarrow>
                             (case format_token_message token_data of
                                Inl e \<Rightarrow> (Some e, st3\<lparr>db := d3\<rparr>)
                              | Inr m \<Rightarrow>
                                  (None, did token_id (SendMessage (TokenMessage m))
                                           (st3\<lparr>db := d3\<rparr>))))))"

text \<open>The body of the loop of \<^verbatim>\<open>check_new_listings\<close>, for one listing.\<close>

definition process_listing :: "world \<Rightarrow> pyval \<Rightarrow> monitor \<Rightarrow> pyerr option \<times> monitor" where
  "process_listing w token st =
     (case py_get token ''id'' PNone of
        Inl e \<Rightarrow> (Some e, st)
      | Inr token_id \<Rightarrow>
          if \<not> hashable token_id then (Some TypeError, st)
          else if in_processed st token_id then (None, st)
          else
            (case token_exists (rt w) (db st) token_id of
               Inl e \<Rightarrow> (Some e, st)
             | Inr known \<Rightarrow>
                 if known then (None, st)
                 else
                   (let f = get_token_details (net w) (n_requests st) 3;
                        st1 = did token_id GetDetails
                                (st\<lparr>n_requests := n_requests st + requests_made f\<rparr>);
                        token_details = fetched f
                    in if \<not> truthy token_details then (None, st1)
                       else
                         (case str_in ''data'' token_details of
                            Inl e \<Rightarrow> (Some e, st1)
                          | Inr has_data \<Rightarrow>
                              if \<not> has_data then (None, st1)
                              else
                                (case py_get token_details ''data'' PNone of
                                   Inl e \<Rightarrow> (Some e, st1)
                                 | Inr data \<Rightarrow>
                                     (case parse_token_details (rt w) token data of
                                        Inl e \<Rightarrow> (Some e, st1)
                                      | Inr None \<Rightarrow> (None, st1)
                                      | Inr (Some (token_data, pd, sd)) \<Rightarrow>
                                          store_and_notify w token_id token_data pd sd
                                            (st1\<lparr>processed_tokens :=
                                                   insert token_id (processed_tokens st1)\<rparr>)))))))"

text \<open>The \<^verbatim>\<open>for\<close> loop: an exception that leaves the body leaves the loop.\<close>

fun process_listings :: "world \<Rightarrow> pyval list \<Rightarrow> monitor \<Rightarrow> pyerr option \<times> monitor" where
  "process_listings w [] st = (None, st)"
| "process_listings w (token # rest) st =
     (case process_listing w token st of
        (Some e, st') \<Rightarrow> (Some e, st')
      | (None, st') \<Rightarrow> process_listings w rest st')"

definition check_new_listings :: "world \<Rightarrow> monitor \<Rightarrow> pyerr option \<times> monitor" where
  "check_new_listings w st =
     (let f = get_new_listings (net w) (n_requests st) 5;
          st1 = st\<lparr>n_requests := n_requests st + requests_made f\<rparr>;
          listings = fetched f
      in if \<not> truthy listings then (None, st1)
         else
           (case str_in ''data'' listings of
              Inl e \<Rightarrow> (Some e, st1)
            | Inr has_data \<Rightarrow>
                if \<not> has_data then (None, st1)
                else
                  (case bindE (py_get listings ''data'' (PList [])) py_iter of
                     Inl e \<Rightarrow> (Some e, st1)
                   | Inr candidates \<Rightarrow> process_listings w candidates st1)))"

text \<open>
  \<^verbatim>\<open>run\<close>: one turn of \<^verbatim>\<open>while True\<close> (the seconds it then sleeps, and the state), and
  the state after \<open>n\<close> turns. The loop has no exit.
\<close>

definition run_iteration :: "world \<Rightarrow> monitor \<Rightarrow> nat \<times> monitor" where
  "run_iteration w st =
     (case check_new_listings w st of
        (None, st') \<Rightarrow> (CHECK_INTERVAL, st')
      | (Some e, st') \<Rightarrow> (CHECK_INTERVAL * 2, st'))"

fun run :: "world \<Rightarrow> nat \<Rightarrow> monitor \<Rightarrow> monitor" where
  "run w 0 st = st"
| "run w (Suc n) st = run w n (snd (run_iteration w st))"

text \<open>
  \<^verbatim>\<open>(now - detected_time).total_seconds() / 3600\<close>: the microseconds between the two
  times, over a million, over 3600, each quotient a float.
\<close>

definition hours_since :: "int \<Rightarrow> int \<Rightarrow> pyerr + pyfloat" where
  "hours_since now detected =
     bindE (py_truediv (PInt (now - detected)) (PInt 1000000)) (\<lambda>total_seconds.
       py_truediv (PFloat total_seconds) (PInt 3600))"

text \<open>\<^verbatim>\<open>abs(hours_since_detection - interval) < 0.17\<close>.\<close>

definition near_interval :: "pyfloat \<Rightarrow> int \<Rightarrow> pyerr + bool" where
  "near_interval hours_since_detection interval =
     bindE (int_to_float interval) (\<lambda>i.
       Inr (float_lt (float_abs (float_sub hours_since_detection i)) (round_double (17 / 100))))"

text \<open>The inner loop of \<^verbatim>\<open>monitor_performance\<close> over the checkpoints, with its \<^verbatim>\<open>break\<close>.\<close>

fun check_intervals ::
    "world \<Rightarrow> tracked_token \<Rightarrow> pyfloat \<Rightarrow> int list \<Rightarrow> monitor \<Rightarrow> pyerr option \<times> monitor" where
  "check_intervals w token hours_since_detection [] st = (None, st)"
| "check_intervals w token hours_since_detection (interval # rest) st =
     (case near_interval hours_since_detection interval of
        Inl e \<Rightarrow> (Some e, st)
      | Inr near \<Rightarrow>
          if near then
            (let history =
                   get_token_performance_history (rt w) (db st) (tt_id token) interval
                     (clock w (n_clock st));
                 st1 = tick st
             in case history of
                  None \<Rightarrow> (None, st1)
                | Some h \<Rightarrow>
                    if 2 \<le> length h then
                      (case format_performance_update token h of
                         Inl e \<Rightarrow> (Some e, st1)
                       | Inr m \<Rightarrow>
                           (None, did (tt_id token) (SendMessage (PerformanceMessage m)) st1))
                    else (None, st1))
          else check_intervals w token hours_since_detection rest st)"

text \<open>The body of the loop of \<^verbatim>\<open>monitor_performance\<close>, for one tracked token.\<close>

definition monitor_token :: "world \<Rightarrow> int \<Rightarrow> tracked_token \<Rightarrow> monitor \<Rightarrow> pyerr option \<times> monitor" where
  "monitor_token w now token st =
     (case hours_since now (tt_detected_at token) of
        Inl e \<Rightarrow> (Some e, st)
      | Inr hours_since_detection \<Rightarrow>
          (let token_id = tt_id token;
               f = get_token_details (net w) (n_requests st) 3;
               st1 = did token_id GetDetails (st\<lparr>n_requests := n_requests st + requests_made f\<rparr>);
               token_details = fetched f
           in if \<not> truthy token_details then (None, st1)
              else
                (case str_in ''data'' token_details of
                   Inl e \<Rightarrow> (Some e, st1)
                 | Inr has_data \<Rightarrow>
                     if \<not> has_data then (None, st1)
                     else
                       (case py_get token_details ''data'' PNone of
                          Inl e \<Rightarrow> (Some e, st1)
                        | Inr data \<Rightarrow>
                            (case parse_token_details (rt w)
                                    (PDict [(''id'', token_id), (''name'', tt_pair_name token)])
                                    data of
                               Inl e \<Rightarrow> (Some e, st1)
                             | Inr None \<Rightarrow> (None, st1)
                             | Inr (Some (token_data, pd, sd)) \<Rightarrow>
                                 (let st2 = tick (did token_id UpdatePerformance st1)
                                  in case update_token_performance (rt w) (db st1) token_id pd
                                            (clock w (n_clock st1)) of
                                       Inl e \<Rightarrow> (Some e, st2)
                                     | Inr d1 \<Rightarrow>
                                         check_intervals w token hours_since_detection
                                           PERFORMANCE_INTERVALS (st2\<lparr>db := d1\<rparr>)))))))"

fun monitor_tokens :: "world \<Rightarrow> int \<Rightarrow> tracked_token list \<Rightarrow> monitor \<Rightarrow> pyerr option \<times> monitor" where
  "monitor_tokens w now [] st = (None, st)"
| "monitor_tokens w now (token # rest) st =
     (case monitor_token w now token st of
        (Some e, st') \<Rightarrow> (Some e, st')
      | (None, st') \<Rightarrow> monitor_tokens w now rest st')"

definition monitor_performance :: "world \<Rightarrow> monitor \<Rightarrow> pyerr option \<times> monitor" where
  "monitor_performance w st =
     (let tokens = get_tokens_for_performance_check (db st) (clock w (n_clock st));
          st1 = tick st;
          now = clock w (n_clock st1);
          st2 = tick st1
      in monitor_tokens w now tokens st2)"

section \<open>Vocabulary of the statements\<close>



text \<open>
  A token id is known to the discovery loop when it is in \<^verbatim>\<open>processed_tokens\<close> (whose
  members are hashable) or \<^verbatim>\<open>token_exists\<close> returns true for it.
\<close>

definition known :: "runtime \<Rightarrow> monitor \<Rightarrow> pyval \<Rightarrow> bool" where
  "known r st token_id =
     ((hashable token_id \<and> in_processed st token_id)
      \<or> token_exists r (db st) token_id = Inr True)"

text \<open>What the trace records for one token id, and the messages sent for it.\<close>

definition events_for :: "pyval \<Rightarrow> monitor \<Rightarrow> action list" where
  "events_for token_id st = map snd (filter (\<lambda>e. fst e = token_id) (trace st))"

fun is_alert :: "action \<Rightarrow> bool" where
  "is_alert (SendMessage m) = True"
| "is_alert _ = False"

definition alerts_for :: "pyval \<Rightarrow> monitor \<Rightarrow> action list" where
  "alerts_for token_id st = filter is_alert (events_for token_id st)"

definition token_ids :: "database \<Rightarrow> pyval set" where
  "token_ids d = set (map tk_id (tokens d))"

text \<open>
  A step made for the token id \<open>i\<close>: the trace grows by entries for \<open>i\<close> only, at most
  \<open>i\<close> joins \<^verbatim>\<open>processed_tokens\<close>, and no id leaves the table of tokens.
\<close>

definition step_for :: "pyval \<Rightarrow> monitor \<Rightarrow> monitor \<Rightarrow> bool" where
  "step_for i st st' =
     ((\<exists>evs. trace st' = trace st @ evs \<and> list_all (\<lambda>e. fst e = i) evs) \<and>
      processed_tokens st \<subseteq> processed_tokens st' \<and>
      processed_tokens st' \<subseteq> insert i (processed_tokens st) \<and>
      token_ids (db st) \<subseteq> token_ids (db st'))"

text \<open>The messages among the entries that a step has added to the trace.\<close>

fun sent :: "(pyval \<times> action) list \<Rightarrow> message list" where
  "sent [] = []"
| "sent ((i, SendMessage m) # es) = m # sent es"
| "sent (e # es) = sent es"

definition new_alerts :: "monitor \<Rightarrow> monitor \<Rightarrow> message list" where
  "new_alerts st st' = sent (drop (length (trace st)) (trace st'))"

section \<open>Example inputs\<close>

text \<open>
  A runtime for the examples: no string is a number, and the texts the runtime writes
  are fixed.
\<close>

definition demo_runtime :: runtime where
  "demo_runtime =
     \<lparr>str_to_float = (\<lambda>s. None), float_repr = (\<lambda>f. ''0.0''), repr_non_ascii = (\<lambda>s. s),
      age_text = (\<lambda>v. ''1m''), sqlite_numeric = (\<lambda>s. None), sqlite_float_text = (\<lambda>f. ''0.0'')\<rparr>"

text \<open>A row of the table \<^verbatim>\<open>tokens\<close> and a store that tracks one token.\<close>

definition demo_token :: "pyval \<Rightarrow> int \<Rightarrow> token_row" where
  "demo_token token_id detected =
     \<lparr>tk_id = token_id, tk_pair_name = PStr ''CAT pump.fun'', tk_deployer = PStr ''Unknown'',
      tk_owner_renounced = 0, tk_launch_time = PNone, tk_mint_enabled = 1,
      tk_liq_burned = PFloat (Fin 0), tk_chain = PStr ''SOL'', tk_initial_mc = PFloat (Fin 0),
      tk_initial_liq = PFloat (Fin 0), tk_website = PStr ''https://pump.fun'',
      tk_source = PStr ''pump.fun'', tk_detected_at = detected, tk_is_safe = 0\<rparr>"

definition demo_db :: database where
  "demo_db =
     \<lparr>tokens = [demo_token (PStr ''tok1'') 0], token_performance = [], security_checks = []\<rparr>"

definition no_flags :: security_data where
  "no_flags =
     \<lparr>has_honey_pot = False, has_mint_function = False, has_proxy = False,
      has_suspicious_holders = False\<rparr>"

text \<open>
  A discovery that meets a failure. Two cycles: the listings name the new tokens \<open>a\<close>
  and \<open>b\<close>; the details of \<open>a\<close> give \<^verbatim>\<open>holdersCount\<close> as an object, which the store
  cannot bind; the details of \<open>b\<close> are well formed.
\<close>

definition two_listings :: pyval where
  "two_listings =
     PDict [(''data'', PList [PDict [(''id'', PStr ''a''), (''name'', PStr ''A pump.fun'')],
                              PDict [(''id'', PStr ''b''), (''name'', PStr ''B pump.fun'')]])]"

definition discovery_world :: world where
  "discovery_world =
     \<lparr>net = (\<lambda>n. if n = 0 \<or> n = 2 then Response two_listings
                 else if n = 1
                   then Response (PDict [(''data'', PDict [(''holdersCount'',
                                                           PDict [(''total'', PInt 10)])])])
                 else Response (PDict [(''data'', PDict [(''holdersCount'', PInt 10)])])),
      clock = (\<lambda>n. 1000 + int n),
      rt = demo_runtime\<rparr>"

definition empty_monitor :: monitor where
  "empty_monitor =
     \<lparr>db = \<lparr>tokens = [], token_performance = [], security_checks = []\<rparr>,
      processed_tokens = {}, n_requests = 0, n_clock = 0, trace = []\<rparr>"

text \<open>
  A performance cycle one hour after the detection of \<open>tok1\<close>: the clock reads one hour
  (in microseconds) and a little more at each reading; the store holds the samples
  taken at the given times.
\<close>

definition sample_at :: "int \<Rightarrow> performance_row" where
  "sample_at t =
     \<lparr>pf_id = PStr ''tok1'', pf_timestamp = t, pf_price = PFloat (Fin 0), pf_market_cap = PFloat (Fin 0),
      pf_volume_24h = PFloat (Fin 0), pf_holders = PInt 10\<rparr>"

definition hour_monitor :: "int list \<Rightarrow> monitor" where
  "hour_monitor stamps =
     \<lparr>db = demo_db\<lparr>token_performance := map sample_at stamps\<rparr>,
      processed_tokens = {}, n_requests = 0, n_clock = 0, trace = []\<rparr>"

definition hour_world :: "outcome \<Rightarrow> world" where
  "hour_world answer =
     \<lparr>net = (\<lambda>n. answer), clock = (\<lambda>n. 3600000000 + int n), rt = demo_runtime\<rparr>"

definition good_details :: outcome where
  "good_details = Response (PDict [(''data'', PDict [(''holdersCount'', PInt 12)])])"

section \<open>Basic facts\<close>

lemma bindE_simps [simp]: "bindE (Inl e) f = Inl e" "bindE (Inr v) f = f v"
  by (simp_all add: bindE_def)

lemma num_of_not_None: "num_of v = Some x \<Longrightarrow> v \<noteq> PNone"
  by (cases v) auto

lemma round_half_even_near: "\<bar>of_int (round_half_even y) - y\<bar> \<le> 1 / 2"
proof -
  have "of_int \<lfloor>y\<rfloor> \<le> y" "y < of_int \<lfloor>y\<rfloor> + 1"
    by linarith+
  then show ?thesis
    by (auto simp: round_half_even_def Let_def abs_le_iff)
qed




subsection \<open>Powers of two and binary digits\<close>

lemma pow2n_eq: "0 \<le> k \<Longrightarrow> pow2n k = 2 ^ nat k"
proof (induction k rule: pow2n.induct)
  case (1 k)
  show ?case
  proof (cases "k \<le> 0")
    case True
    with 1(3) show ?thesis
      by (simp add: pow2n.simps)
  next
    case False
    then have h: "0 \<le> k div 2" "nat k = nat (k div 2) + nat (k div 2) + (if even k then 0 else 1)"
      by (auto elim!: evenE oddE)
    have ih: "pow2n (k div 2) = 2 ^ nat (k div 2)"
      using 1 False h(1) by (cases "even k") auto
    show ?thesis
      using False ih by (simp add: pow2n.simps [of k] h(2) power_add)
  qed
qed

lemma pow2_eq: "pow2 k = 2 powi k"
  by (simp add: pow2_def pow2n_eq power_int_def power_one_over inverse_eq_divide)

lemma pow2_pos [simp]: "0 < pow2 k"
  by (simp add: pow2_eq)

lemma pow2_nonzero [simp]: "pow2 k \<noteq> 0"
  using pow2_pos [of k] by linarith

lemma pow2_add: "pow2 (a + b) = pow2 a * pow2 b"
  by (simp add: pow2_eq power_int_add)

lemma pow2_mono: "a \<le> b \<Longrightarrow> pow2 a \<le> pow2 b"
  by (simp add: pow2_eq power_int_increasing)

lemma pow2_less_cancel: "pow2 a \<le> x \<Longrightarrow> x < pow2 b \<Longrightarrow> a < b"
  using pow2_mono [of b a] by (cases "a < b") auto

lemma pow2_nat: "0 \<le> k \<Longrightarrow> pow2 k = 2 ^ nat k"
  by (simp add: pow2_def pow2n_eq)

lemma bit_len_bounds:
  "0 < n \<Longrightarrow> 1 \<le> bit_len n \<and> 2 ^ nat (bit_len n - 1) \<le> n \<and> n < 2 ^ nat (bit_len n)"
proof (induction n rule: bit_len.induct)
  case (1 n)
  show ?case
  proof (cases "n div 2 \<le> 0")
    case True
    with 1(2) have "n = 1"
      by presburger
    then show ?thesis
      by (simp add: bit_len.simps [of 1] bit_len.simps [of 0])
  next
    case False
    then have ih: "1 \<le> bit_len (n div 2)" "2 ^ nat (bit_len (n div 2) - 1) \<le> n div 2"
      "n div 2 < 2 ^ nat (bit_len (n div 2))"
      using 1 by auto
    have b: "bit_len n = 1 + bit_len (n div 2)"
      using 1(2) by (subst bit_len.simps) simp
    have e: "nat (bit_len n - 1) = Suc (nat (bit_len (n div 2) - 1))"
      "nat (bit_len n) = Suc (nat (bit_len (n div 2)))"
      using ih(1) b by auto
    have "2 * 2 ^ nat (bit_len (n div 2) - 1) \<le> n"
      using ih(2) by linarith
    moreover have "n < 2 * 2 ^ nat (bit_len (n div 2))"
      using ih(3) by linarith
    ultimately show ?thesis
      unfolding e using b ih(1) by simp
  qed
qed

lemma bit_len_pow2:
  assumes "0 < n"
  shows "pow2 (bit_len n - 1) \<le> of_int n" "of_int n < pow2 (bit_len n)"
proof -
  note b = bit_len_bounds [OF assms]
  have "(of_int (2 ^ nat (bit_len n - 1)) :: rat) \<le> of_int n"
    using b by (simp only: of_int_le_iff)
  then show "pow2 (bit_len n - 1) \<le> of_int n"
    using b by (simp add: pow2_nat)
  have "(of_int n :: rat) < of_int (2 ^ nat (bit_len n))"
    using b by (simp only: of_int_less_iff)
  then show "of_int n < pow2 (bit_len n)"
    using b by (simp add: pow2_nat)
qed

lemma floor_log2_bounds:
  assumes "0 < a"
  shows "pow2 (floor_log2 a) \<le> a \<and> a < pow2 (floor_log2 a + 1)"
proof -
  obtain p q where pq: "quotient_of a = (p, q)"
    by (cases "quotient_of a")
  then have a: "a = of_int p / of_int q" and q: "0 < q"
    by (auto dest: quotient_of_div quotient_of_denom_pos)
  with assms have p: "0 < p"
    by (simp add: zero_less_divide_iff)
  define d where "d = bit_len p - bit_len q"
  have lo: "pow2 (d - 1) \<le> a"
  proof -
    have "pow2 (d - 1) * of_int q \<le> pow2 (d - 1) * pow2 (bit_len q)"
      using bit_len_pow2 (2) [OF q] by (simp add: less_imp_le)
    also have "\<dots> = pow2 (bit_len p - 1)"
      by (simp add: pow2_add [symmetric] d_def)
    also have "\<dots> \<le> of_int p"
      by (rule bit_len_pow2 (1) [OF p])
    finally show ?thesis
      using q by (simp add: a pos_le_divide_eq)
  qed
  have hi: "a < pow2 (d + 1)"
  proof -
    have "of_int p < pow2 (bit_len p)"
      by (rule bit_len_pow2 (2) [OF p])
    also have "\<dots> = pow2 (d + 1) * pow2 (bit_len q - 1)"
      by (simp add: pow2_add [symmetric] d_def)
    also have "\<dots> \<le> pow2 (d + 1) * of_int q"
      using bit_len_pow2 (1) [OF q] by simp
    finally show ?thesis
      using q by (simp add: a pos_divide_less_eq)
  qed
  show ?thesis
    using lo hi by (simp add: floor_log2_def pq d_def [symmetric] Let_def)
qed

lemma floor_log2_unique: "pow2 e \<le> a \<Longrightarrow> a < pow2 (e + 1) \<Longrightarrow> floor_log2 a = e"
proof -
  assume h: "pow2 e \<le> a" "a < pow2 (e + 1)"
  have "0 < a"
    using h(1) pow2_pos [of e] by linarith
  note b = floor_log2_bounds [OF this]
  have "floor_log2 a < e + 1" "e < floor_log2 a + 1"
    using pow2_less_cancel b h by blast+
  then show ?thesis
    by simp
qed

lemma floor_log2_mono: "pow2 e \<le> a \<Longrightarrow> e \<le> floor_log2 a"
proof -
  assume h: "pow2 e \<le> a"
  have "0 < a"
    using h pow2_pos [of e] by linarith
  then have "e < floor_log2 a + 1"
    using pow2_less_cancel floor_log2_bounds h by blast
  then show ?thesis
    by simp
qed


subsection \<open>Rounding to a double\<close>




text \<open>A magnitude that is not below the least double does not round to zero.\<close>

lemma signed_round_not_zero:
  assumes lo: "pow2 (- 1074) \<le> a"
  shows "\<not> float_is_zero (signed_round neg a)"
proof -
  have a: "0 < a"
    using lo pow2_pos [of "- 1074"] by linarith
  define q where "q = max (floor_log2 a - 52) (- 1074)"
  define m where "m = round_half_even (a / pow2 q)"
  have "q \<le> floor_log2 a"
    using floor_log2_mono [OF lo] by (simp add: q_def)
  then have "pow2 q \<le> a"
    using pow2_mono [of q "floor_log2 a"] floor_log2_bounds [OF a] by linarith
  then have big: "1 \<le> a / pow2 q"
    by (simp add: pos_le_divide_eq)
  have "\<bar>of_int m - a / pow2 q\<bar> \<le> 1 / 2"
    unfolding m_def by (rule round_half_even_near)
  then have "(0::rat) < of_int m"
    using big by linarith
  then have mpos: "0 < m"
    by simp
  have m: "round_half_even (a / pow2 q) = m"
    by (simp add: m_def)
  have q: "max (floor_log2 a - 52) (- 1074) = q"
    by (simp add: q_def)
  show ?thesis
    using a mpos by (simp add: signed_round_def Let_def q m)
qed

lemma int_to_float_not_zero: "int_to_float i = Inr y \<Longrightarrow> i \<noteq> 0 \<Longrightarrow> \<not> float_is_zero y"
proof -
  assume y: "int_to_float i = Inr y" and i: "i \<noteq> 0"
  have "1 \<le> \<bar>i\<bar>"
    using i by simp
  then have "(of_int 1 :: rat) \<le> of_int \<bar>i\<bar>"
    by (simp only: of_int_le_iff)
  then have "(1::rat) \<le> \<bar>of_int i\<bar>"
    by simp
  moreover have "pow2 (- 1074) \<le> pow2 0"
    by (rule pow2_mono) simp
  ultimately have "pow2 (- 1074) \<le> \<bar>of_int i\<bar>"
    by (simp add: pow2_nat)
  then have nz: "\<not> float_is_zero (round_double (of_int i))"
    unfolding round_double_def by (rule signed_round_not_zero)
  have "y = round_double (of_int i)"
    using y by (auto simp: int_to_float_def split: pyfloat.splits)
  then show ?thesis
    using nz by simp
qed

section \<open>The calculations\<close>

lemma percentage_example: "calculate_percentage (PInt 50) (PInt 200) = PInt 25"
  by code_simp

lemma multiplier_example: "calculate_multiplier (PInt 250) (PInt 100) = ''2.5x''"
  by code_simp

lemma to_float_not_zero: "\<not> py_eq_zero b \<Longrightarrow> to_float b = Inr y \<Longrightarrow> \<not> float_is_zero y"
  by (cases b) (auto simp: to_float_def py_eq_zero_def dest: int_to_float_not_zero split: if_splits)

lemma float_div_guarded: "\<not> float_is_zero y \<Longrightarrow> float_div x y \<noteq> Inl ZeroDivisionError"
  by (simp add: float_div_def Let_def)

lemma to_float_no_zero_division: "to_float v \<noteq> Inl ZeroDivisionError"
  by (cases v) (auto simp: to_float_def int_to_float_def split: pyfloat.splits)

lemma float_path_guarded:
  assumes "\<not> py_eq_zero b"
  shows "bindE (to_float a) (\<lambda>x. bindE (to_float b) (\<lambda>y. float_div x y)) \<noteq> Inl ZeroDivisionError"
proof (cases "to_float a")
  case (Inl e)
  then show ?thesis
    using to_float_no_zero_division [of a] by simp
next
  case x: (Inr x)
  show ?thesis
  proof (cases "to_float b")
    case (Inl e)
    then show ?thesis
      using to_float_no_zero_division [of b] x by simp
  next
    case (Inr y)
    then show ?thesis
      using x float_div_guarded [OF to_float_not_zero [OF assms Inr], of x] by simp
  qed
qed

lemma int_of_zero: "int_of b = Some 0 \<Longrightarrow> py_eq_zero b"
  by (cases b) (auto simp: py_eq_zero_def split: if_splits)

lemma py_truediv_guarded: "\<not> py_eq_zero b \<Longrightarrow> py_truediv a b \<noteq> Inl ZeroDivisionError"
  using int_of_zero [of b]
  by (auto simp: py_truediv_def float_path_guarded split: option.splits pyfloat.splits)

lemma py_round_no_zero_division: "py_round f \<noteq> Inl ZeroDivisionError"
  by (cases f) auto

lemma percentage_try_no_zero_division:
  "calculate_percentage_try part whole \<noteq> Inl ZeroDivisionError"
proof (cases "py_truediv part whole")
  case (Inl e)
  then show ?thesis
    using py_truediv_guarded [of whole part] by (auto simp: calculate_percentage_try_def)
next
  case (Inr q)
  then show ?thesis
    using py_round_no_zero_division [of "float_mul q (Fin 100)"]
    by (cases "py_round (float_mul q (Fin 100))") (auto simp: calculate_percentage_try_def)
qed

lemma multiplier_try_no_zero_division:
  "calculate_multiplier_try current reference \<noteq> Inl ZeroDivisionError"
  using py_truediv_guarded [of reference current]
  by (cases "py_truediv current reference") (auto simp: calculate_multiplier_try_def)

text \<open>
  Claim C8. The percentage and the multiplier are total and never divide by zero: the
  body of either \<^verbatim>\<open>try\<close> never raises \<^verbatim>\<open>ZeroDivisionError\<close>, whatever the arguments.
  With a whole of zero (the int or the float) the percentage of any part, a number or
  not, is 0, and with a reference of zero the multiplier of any current value is "1x".
  The percentage of 50 in 200 is 25, and the multiplier of 250 over 100 is "2.5x".
\<close>

theorem calculations_total:
  "calculate_percentage part (PInt 0) = PInt 0 \<and>
   calculate_percentage part (PFloat 0) = PInt 0 \<and>
   calculate_multiplier current (PInt 0) = ''1x'' \<and>
   calculate_multiplier current (PFloat 0) = ''1x'' \<and>
   calculate_percentage_try part whole \<noteq> Inl ZeroDivisionError \<and>
   calculate_multiplier_try current reference \<noteq> Inl ZeroDivisionError \<and>
   calculate_percentage (PInt 50) (PInt 200) = PInt 25 \<and>
   calculate_multiplier (PInt 250) (PInt 100) = ''2.5x''"
proof -
  have z: "py_eq_zero (PInt 0)" "py_eq_zero (PFloat 0)"
    by (simp_all add: py_eq_zero_def zero_pyfloat_def)
  have "calculate_percentage part (PInt 0) = PInt 0" "calculate_percentage part (PFloat 0) = PInt 0"
    using z by (simp_all add: calculate_percentage_def calculate_percentage_try_def)
  moreover have "calculate_multiplier current (PInt 0) = ''1x''"
    "calculate_multiplier current (PFloat 0) = ''1x''"
    using z by (simp_all add: calculate_multiplier_def calculate_multiplier_try_def)
  ultimately show ?thesis
    using percentage_try_no_zero_division multiplier_try_no_zero_division
      percentage_example multiplier_example by simp
qed

theorem calculations_total_witness:
  "calculate_percentage (PStr ''abc'') (PInt 0) = PInt 0 \<and>
   calculate_multiplier (PList []) (PFloat 0) = ''1x'' \<and>
   calculate_percentage_try (PInt 1) (PBool False) \<noteq> Inl ZeroDivisionError \<and>
   calculate_multiplier_try (PInt 1) (PBool False) \<noteq> Inl ZeroDivisionError"
  using calculations_total [of "PStr ''abc''" "PList []" "PBool False" "PBool False"]
    calculations_total [of "PInt 1" "PInt 1" "PBool False" "PBool False"]
  by simp

section \<open>The number formatter\<close>

lemma float_lt_Fin [simp]: "float_lt (Fin x) (Fin y) = (x < y)"
  by (simp add: float_lt_def)









text \<open>A float that is not finite is written as \<^verbatim>\<open>format\<close> writes it.\<close>

lemma format_number_not_finite:
  "format_number r (PFloat NaN) 1 = ''nanB''"
  "format_number r (PFloat PosInf) 1 = ''infB''"
  "format_number r (PFloat NegInf) 1 = ''-inf''"
  by (simp_all add: format_number_def py_float_def to_float_def float_lt_def scaled_def
      float_div_def)

section \<open>The safety flag in the store\<close>

lemma token_exists_bindable: "token_exists r d token_id = Inr b \<Longrightarrow> bind_param token_id = None"
  by (simp add: token_exists_def split: option.splits)

lemma token_exists_iff:
  "token_exists r d token_id = Inr True \<longleftrightarrow>
     bind_param token_id = None \<and> (\<exists>row \<in> set (tokens d). id_matches r (tk_id row) token_id)"
  by (auto simp: token_exists_def list_ex_iff split: option.splits)

lemma update_security_check_tokens:
  "update_security_check r d token_id sd now = Inr d' \<Longrightarrow>
     tokens d' =
       map (\<lambda>row. if id_matches r (tk_id row) token_id
                 then row\<lparr>tk_is_safe :=
                          (if \<not> (has_honey_pot sd \<or> has_mint_function sd \<or> has_proxy sd
                                   \<or> has_suspicious_holders sd) then 1 else 0)\<rparr>
                 else row) (tokens d)"
  by (auto simp: update_security_check_def Let_def split: option.splits)

text \<open>
  Claim C4. After \<^verbatim>\<open>update_security_check(token_id, security_data)\<close> on a token that
  is in the store, the call has succeeded, the token is still in the store, and
  \<^verbatim>\<open>is_safe\<close> of its row is 1 exactly when none of the four flags (honeypot, mint
  function, proxy, suspicious holders) of that check is set: 1 when all four are false,
  0 as soon as one is true.
\<close>

theorem update_security_check_is_safe:
  assumes "token_exists r d token_id = Inr True"
  shows "\<exists>d'. update_security_check r d token_id sd now = Inr d' \<and>
              token_exists r d' token_id = Inr True \<and>
              (\<forall>row \<in> set (tokens d'). id_matches r (tk_id row) token_id \<longrightarrow>
                 (tk_is_safe row = 1) =
                   (\<not> (has_honey_pot sd \<or> has_mint_function sd \<or> has_proxy sd
                        \<or> has_suspicious_holders sd)) \<and>
                 (tk_is_safe row = 0) =
                   (has_honey_pot sd \<or> has_mint_function sd \<or> has_proxy sd
                      \<or> has_suspicious_holders sd))"
proof -
  from assms have b: "bind_param token_id = None"
    and ex: "\<exists>row \<in> set (tokens d). id_matches r (tk_id row) token_id"
    by (simp_all add: token_exists_iff)
  from b obtain d' where u: "update_security_check r d token_id sd now = Inr d'"
    by (simp add: update_security_check_def Let_def)
  note t = update_security_check_tokens [OF u]
  have ids: "map tk_id (tokens d') = map tk_id (tokens d)"
    unfolding t by (induction "tokens d") (simp_all add: comp_def)
  from ex have "\<exists>i \<in> set (map tk_id (tokens d)). id_matches r i token_id"
    by auto
  then have "\<exists>i \<in> set (map tk_id (tokens d')). id_matches r i token_id"
    by (simp only: ids)
  then have "\<exists>row \<in> set (tokens d'). id_matches r (tk_id row) token_id"
    by auto
  with b have "token_exists r d' token_id = Inr True"
    by (simp add: token_exists_iff)
  moreover have "\<forall>row \<in> set (tokens d'). id_matches r (tk_id row) token_id \<longrightarrow>
                 (tk_is_safe row = 1) =
                   (\<not> (has_honey_pot sd \<or> has_mint_function sd \<or> has_proxy sd
                        \<or> has_suspicious_holders sd)) \<and>
                 (tk_is_safe row = 0) =
                   (has_honey_pot sd \<or> has_mint_function sd \<or> has_proxy sd
                      \<or> has_suspicious_holders sd)"
    unfolding t by auto
  ultimately show ?thesis using u by blast
qed

theorem update_security_check_is_safe_witness:
  "token_exists demo_runtime demo_db (PStr ''tok1'') = Inr True \<and>
   (\<exists>d'. update_security_check demo_runtime demo_db (PStr ''tok1'') no_flags 7 = Inr d' \<and>
         token_exists demo_runtime d' (PStr ''tok1'') = Inr True \<and>
         (\<forall>row \<in> set (tokens d'). id_matches demo_runtime (tk_id row) (PStr ''tok1'') \<longrightarrow>
            (tk_is_safe row = 1) =
              (\<not> (has_honey_pot no_flags \<or> has_mint_function no_flags \<or> has_proxy no_flags
                   \<or> has_suspicious_holders no_flags)) \<and>
            (tk_is_safe row = 0) =
              (has_honey_pot no_flags \<or> has_mint_function no_flags \<or> has_proxy no_flags
                 \<or> has_suspicious_holders no_flags)))"
proof -
  have h: "token_exists demo_runtime demo_db (PStr ''tok1'') = Inr True"
    by (simp add: token_exists_def demo_db_def demo_token_def id_matches_def sql_eq_def
        text_affinity_def)
  show ?thesis
    by (rule conjI [OF h update_security_check_is_safe [OF h]])
qed

lemma update_security_check_example:
  "map_sum id (\<lambda>d'. map tk_is_safe (tokens d'))
     (update_security_check demo_runtime demo_db (PStr ''tok1'') no_flags 7) = Inr [1] \<and>
   map_sum id (\<lambda>d'. map tk_is_safe (tokens d'))
     (update_security_check demo_runtime demo_db (PStr ''tok1'') (no_flags\<lparr>has_proxy := True\<rparr>) 7)
     = Inr [0]"
  by (simp add: update_security_check_def demo_db_def demo_token_def id_matches_def sql_eq_def
      text_affinity_def no_flags_def)

section \<open>The source filter of the builder\<close>

text \<open>
  A marker is found in the lowered name exactly when some stretch of the name is the
  marker up to the case of its letters.
\<close>

lemma sublist_lower_iff: "sublist m (lower s) \<longleftrightarrow> (\<exists>t. sublist t s \<and> lower t = m)"
proof
  assume "sublist m (lower s)"
  then obtain ps ss where e: "lower s = ps @ m @ ss"
    unfolding sublist_def by blast
  let ?t = "take (length m) (drop (length ps) s)"
  have "lower ?t = take (length m) (drop (length ps) (lower s))"
    by (simp add: lower_def take_map drop_map)
  also have "\<dots> = m"
    by (simp add: e)
  finally have "lower ?t = m" .
  moreover have "sublist ?t s"
    unfolding sublist_def by (metis append_take_drop_id)
  ultimately show "\<exists>t. sublist t s \<and> lower t = m"
    by blast
next
  assume "\<exists>t. sublist t s \<and> lower t = m"
  then obtain t where "sublist t s" "lower t = m"
    by blast
  then show "sublist m (lower s)"
    using map_mono_sublist [of t s ascii_lower] by (simp add: lower_def)
qed

lemma find_source_no_name:
  "''name'' \<notin> set (map fst tr) \<Longrightarrow> find_source (PDict tr) = Inr None"
  by (simp add: find_source_def)

lemma find_source_name:
  "map_of tr ''name'' = Some (PStr s) \<Longrightarrow> find_source (PDict tr) = Inr (source_of (lower s))"
proof -
  assume a: "map_of tr ''name'' = Some (PStr s)"
  then have "''name'' \<in> set (map fst tr)"
    by (metis domI dom_map_of_conv_image_fst set_map)
  with a show ?thesis
    by (simp add: find_source_def)
qed

lemma parse_rejected: "find_source token_raw = Inr None \<Longrightarrow> parse_token_details r token_raw details = Inr None"
  by (simp add: parse_token_details_def Let_def)

lemma parse_accepted:
  "find_source token_raw = Inr (Some source) \<Longrightarrow> parse_token_details r token_raw details \<noteq> Inr None"
  by (auto simp: parse_token_details_def Let_def bindE_def split: pyval.splits sum.splits)

text \<open>
  On a listing whose name is a string the filter does what is asked of it: with no
  \<^verbatim>\<open>name\<close> field, or a name that has neither marker (\<^verbatim>\<open>pump.fun\<close>, \<^verbatim>\<open>pump.swap\<close>) in its
  lowered text, the builder returns \<^verbatim>\<open>None\<close>, whatever the details; with a marker in the
  name the builder does not return \<^verbatim>\<open>None\<close>.
\<close>

lemma source_filter_on_strings:
  "(''name'' \<notin> set (map fst tr) \<longrightarrow> parse_token_details r (PDict tr) details = Inr None) \<and>
   (map_of tr ''name'' = Some (PStr s) \<and> \<not> sublist ''pump.fun'' (lower s)
      \<and> \<not> sublist ''pump.swap'' (lower s) \<longrightarrow>
    parse_token_details r (PDict tr) details = Inr None) \<and>
   (map_of tr ''name'' = Some (PStr s)
      \<and> (sublist ''pump.fun'' (lower s) \<or> sublist ''pump.swap'' (lower s)) \<longrightarrow>
    parse_token_details r (PDict tr) details \<noteq> Inr None)"
proof (intro conjI impI)
  assume "''name'' \<notin> set (map fst tr)"
  then show "parse_token_details r (PDict tr) details = Inr None"
    by (simp add: find_source_no_name parse_rejected)
next
  assume "map_of tr ''name'' = Some (PStr s) \<and> \<not> sublist ''pump.fun'' (lower s)
      \<and> \<not> sublist ''pump.swap'' (lower s)"
  then have "find_source (PDict tr) = Inr None"
    by (simp add: find_source_name source_of_def)
  then show "parse_token_details r (PDict tr) details = Inr None"
    by (rule parse_rejected)
next
  assume "map_of tr ''name'' = Some (PStr s)
      \<and> (sublist ''pump.fun'' (lower s) \<or> sublist ''pump.swap'' (lower s))"
  then have "\<exists>source. find_source (PDict tr) = Inr (Some source)"
    by (auto simp: find_source_name source_of_def)
  then show "parse_token_details r (PDict tr) details \<noteq> Inr None"
    by (auto dest: parse_accepted)
qed

text \<open>
  Claim C5. A listing whose \<^verbatim>\<open>name\<close> is \<^verbatim>\<open>null\<close>, or a number, has none of the markers in
  its name, and the claim asks for \<^verbatim>\<open>None\<close>. The builder raises instead: the filter calls
  \<^verbatim>\<open>.lower()\<close> on the name (line 422), and only a string has it.
\<close>

theorem source_filter_name_not_a_string:
  "parse_token_details demo_runtime (PDict [(''id'', PStr ''x''), (''name'', PNone)]) PNone
     = Inl AttributeError \<and>
   parse_token_details demo_runtime (PDict [(''id'', PStr ''x''), (''name'', PInt 7)]) (PDict [])
     = Inl AttributeError"
  by (simp add: parse_token_details_def find_source_def Let_def)

section \<open>The safety evaluator\<close>

lemma sublist_trans: "sublist a b \<Longrightarrow> sublist b c \<Longrightarrow> sublist a c"
  unfolding sublist_def by (metis append.assoc)

lemma join_Cons: "join sep (x # xs) = x @ (if xs = [] then [] else sep @ join sep xs)"
  by (cases xs) simp_all

lemma sublist_join: "x \<in> set xs \<Longrightarrow> sublist x (join sep xs)"
proof (induction xs)
  case Nil
  then show ?case by simp
next
  case (Cons y ys)
  show ?case
  proof (cases "x = y")
    case True
    then show ?thesis by (simp add: join_Cons)
  next
    case False
    with Cons have "sublist x (join sep ys)" and "ys \<noteq> []"
      by auto
    then have "sublist x ((y @ sep) @ join sep ys)"
      by (simp add: sublist_append)
    with \<open>ys \<noteq> []\<close> show ?thesis
      by (simp add: join_Cons)
  qed
qed

text \<open>The text of a dict shows each of its keys, quoted.\<close>

lemma key_in_py_str:
  assumes "k \<in> set (map fst kvs)"
  shows "sublist (repr_str r k) (py_str r (PDict kvs))"
proof -
  define item where "item = (\<lambda>kv. repr_str r (fst kv) @ '': '' @ py_repr r (snd kv))"
  from assms obtain v where kv: "(k, v) \<in> set kvs"
    by auto
  then have "item (k, v) \<in> item ` set kvs"
    by (rule imageI)
  then have "item (k, v) \<in> set (map item kvs)"
    by (simp only: set_map)
  then have "sublist (item (k, v)) (join '', '' (map item kvs))"
    by (rule sublist_join)
  moreover have "sublist (repr_str r k) (item (k, v))"
    by (simp add: item_def)
  ultimately have "sublist (repr_str r k) (join '', '' (map item kvs))"
    by (rule sublist_trans [rotated])
  then have "sublist (repr_str r k) (''{'' @ join '', '' (map item kvs) @ ''}'')"
    by (rule sublist_trans) (rule sublist_appendI)
  moreover have "py_str r (PDict kvs) = ''{'' @ join '', '' (map item kvs) @ ''}''"
    by (simp add: item_def py_str_def py_repr.simps)
  ultimately show ?thesis
    by (simp only:)
qed

lemma repr_mintEnabled: "lower (repr_str r ''mintEnabled'') = CHR 0x27 # ''mintenabled'' @ [CHR 0x27]"
  by code_simp

lemma mint_in_key: "sublist ''mint'' (CHR 0x27 # ''mintenabled'' @ [CHR 0x27])"
  by code_simp

lemma enabled_in_key: "sublist ''enabled'' (CHR 0x27 # ''mintenabled'' @ [CHR 0x27])"
  by code_simp

lemma mintEnabled_text:
  assumes "''mintEnabled'' \<in> set (map fst kvs)"
  shows "sublist ''mint'' (lower (py_str r (PDict kvs)))"
    and "sublist ''enabled'' (lower (py_str r (PDict kvs)))"
proof -
  have "sublist (lower (repr_str r ''mintEnabled'')) (lower (py_str r (PDict kvs)))"
    unfolding lower_def by (rule map_mono_sublist [OF key_in_py_str [OF assms]])
  then have k: "sublist (CHR 0x27 # ''mintenabled'' @ [CHR 0x27]) (lower (py_str r (PDict kvs)))"
    by (simp only: repr_mintEnabled)
  show "sublist ''mint'' (lower (py_str r (PDict kvs)))"
    by (rule sublist_trans [OF mint_in_key k])
  show "sublist ''enabled'' (lower (py_str r (PDict kvs)))"
    by (rule sublist_trans [OF enabled_in_key k])
qed

lemma holders_check_no_holders:
  "''holders'' \<notin> set (map fst kvs) \<Longrightarrow> holders_check r (PDict kvs) = Inr False"
  by (simp add: holders_check_def)

lemma map_of_key: "map_of kvs k = Some v \<Longrightarrow> k \<in> set (map fst kvs)"
  by (metis domI dom_map_of_conv_image_fst set_map)

lemma holders_check_no_top10:
  assumes "map_of kvs ''holders'' = Some (PDict h)" and "''top10'' \<notin> set (map fst h)"
  shows "holders_check r (PDict kvs) = Inr False"
  using assms map_of_key [OF assms(1)] by (simp add: holders_check_def)

lemma holders_check_top10:
  assumes "map_of kvs ''holders'' = Some (PDict h)"
    and "map_of h ''top10'' = Some (PStr s)"
    and "str_to_float r (filter (\<lambda>c. c \<noteq> CHR ''%'') s) = Some x"
  shows "holders_check r (PDict kvs) = Inr (float_lt (Fin 80) x)"
  using assms map_of_key [OF assms(1)] map_of_key [OF assms(2)]
  by (simp add: holders_check_def)

lemma validate_token_error:
  "validate_token r d = Inl e \<longleftrightarrow> holders_check r d = Inl e"
  by (cases "holders_check r d") (simp_all add: validate_token_def Let_def)

text \<open>
  The mint flag is computed over the text of the whole payload: for every payload that
  has the key \<^verbatim>\<open>mintEnabled\<close>, whatever its value, the flags that the evaluator returns
  have \<^verbatim>\<open>has_mint_function\<close> true; it returns them whenever the payload has no \<^verbatim>\<open>holders\<close>
  key.
\<close>

lemma mint_flag_from_key_name:
  assumes "''mintEnabled'' \<in> set (map fst kvs)"
  shows "(\<forall>sd. validate_token r (PDict kvs) = Inr sd \<longrightarrow> has_mint_function sd) \<and>
         (''holders'' \<notin> set (map fst kvs) \<longrightarrow>
            validate_token r (PDict kvs) =
              Inr \<lparr>has_honey_pot = False, has_mint_function = True, has_proxy = False,
                   has_suspicious_holders = False\<rparr>)"
  using mintEnabled_text [OF assms, of r] holders_check_no_holders [of kvs r]
  by (cases "holders_check r (PDict kvs)") (auto simp: validate_token_def Let_def)

lemma mint_flag_example:
  "validate_token demo_runtime (PDict [(''mintEnabled'', PBool False)]) =
     Inr \<lparr>has_honey_pot = False, has_mint_function = True, has_proxy = False,
          has_suspicious_holders = False\<rparr>"
  using mint_flag_from_key_name [of "[(''mintEnabled'', PBool False)]" demo_runtime]
  by simp

text \<open>
  Claim C10. A payload with \<^verbatim>\<open>mintEnabled\<close> false and a numeric \<^verbatim>\<open>top10\<close> under \<^verbatim>\<open>holders\<close>
  has the key \<^verbatim>\<open>mintEnabled\<close>, and the claim asks for \<^verbatim>\<open>has_mint_function\<close> true. The
  evaluator returns no flags: it raises \<^verbatim>\<open>AttributeError\<close> at \<^verbatim>\<open>.replace\<close> (line 320), which
  only a string has.
\<close>

theorem mint_flag_numeric_top10:
  "''mintEnabled'' \<in> set (map fst [(''mintEnabled'', PBool False),
                                    (''holders'', PDict [(''top10'', PInt 85)])]) \<and>
   validate_token demo_runtime
     (PDict [(''mintEnabled'', PBool False), (''holders'', PDict [(''top10'', PInt 85)])])
   = Inl AttributeError"
  by (simp add: validate_token_def holders_check_def Let_def)

section \<open>Fetching with retries\<close>

lemma new_listings_loop_timeouts:
  assumes "\<forall>i. retries \<le> i \<and> i < k \<longrightarrow> ocs (base + i) = Timeout"
    and "retries \<le> k" and "k \<le> max_retries"
  shows "new_listings_loop ocs base max_retries retries sleeps =
           new_listings_loop ocs base max_retries k
             (sleeps @ map (\<lambda>j. 3 + (j + 1) * 3) [retries..<k])"
  using assms
proof (induction "k - retries" arbitrary: retries sleeps)
  case 0
  then show ?case by simp
next
  case (Suc d)
  then have lt: "retries < k" and t: "ocs (base + retries) = Timeout"
    by auto
  have "new_listings_loop ocs base max_retries retries sleeps =
          new_listings_loop ocs base max_retries (retries + 1) (sleeps @ [3 + (retries + 1) * 3])"
    using lt t Suc.prems(3) by (subst new_listings_loop.simps) simp
  also have "\<dots> = new_listings_loop ocs base max_retries k
                      ((sleeps @ [3 + (retries + 1) * 3]) @
                       map (\<lambda>j. 3 + (j + 1) * 3) [retries + 1..<k])"
    using Suc.hyps(2) Suc.prems lt by (intro Suc.hyps(1)) auto
  finally show ?case
    using lt by (simp add: upt_conv_Cons)
qed

lemma token_details_loop_timeouts:
  assumes "\<forall>i. retries \<le> i \<and> i < k \<longrightarrow> ocs (base + i) = Timeout"
    and "retries \<le> k" and "k \<le> max_retries"
  shows "token_details_loop ocs base max_retries retries sleeps =
           token_details_loop ocs base max_retries k
             (sleeps @ map (\<lambda>j. 2 ^ (j + 1)) [retries..<k])"
  using assms
proof (induction "k - retries" arbitrary: retries sleeps)
  case 0
  then show ?case by simp
next
  case (Suc d)
  then have lt: "retries < k" and t: "ocs (base + retries) = Timeout"
    by auto
  have "token_details_loop ocs base max_retries retries sleeps =
          token_details_loop ocs base max_retries (retries + 1) (sleeps @ [2 ^ (retries + 1)])"
    using lt t Suc.prems(3) by (subst token_details_loop.simps) simp
  also have "\<dots> = token_details_loop ocs base max_retries k
                      ((sleeps @ [2 ^ (retries + 1)]) @ map (\<lambda>j. 2 ^ (j + 1)) [retries + 1..<k])"
    using Suc.hyps(2) Suc.prems lt by (intro Suc.hyps(1)) auto
  finally show ?case
    using lt by (simp add: upt_conv_Cons)
qed

text \<open>Every timeout of the first \<open>k\<close> requests is followed by a sleep and one more request.\<close>

lemma get_new_listings_after_timeouts:
  assumes "\<forall>i<k. ocs (base + i) = Timeout" and "k \<le> max_retries"
  shows "get_new_listings ocs base max_retries =
           new_listings_loop ocs base max_retries k (map (\<lambda>j. 3 + (j + 1) * 3) [0..<k])"
  unfolding get_new_listings_def
  using new_listings_loop_timeouts [of 0 k ocs base max_retries "[]"] assms by simp

lemma get_token_details_after_timeouts:
  assumes "\<forall>i<k. ocs (base + i) = Timeout" and "k \<le> max_retries"
  shows "get_token_details ocs base max_retries =
           token_details_loop ocs base max_retries k (map (\<lambda>j. 2 ^ (j + 1)) [0..<k])"
  unfolding get_token_details_def
  using token_details_loop_timeouts [of 0 k ocs base max_retries "[]"] assms by simp

lemma new_listings_loop_bounded:
  "retries \<le> max_retries \<Longrightarrow>
     requests_made (new_listings_loop ocs base max_retries retries sleeps) \<le> max_retries"
proof (induction "max_retries - retries" arbitrary: retries sleeps)
  case 0
  then show ?case by (subst new_listings_loop.simps) simp
next
  case (Suc d)
  then have "retries < max_retries" by simp
  moreover have "requests_made (new_listings_loop ocs base max_retries (retries + 1)
                   (sleeps @ [3 + (retries + 1) * 3])) \<le> max_retries"
    using Suc by (intro Suc.hyps(1)) auto
  ultimately show ?case
    by (subst new_listings_loop.simps) (simp split: outcome.splits)
qed

lemma token_details_loop_bounded:
  "retries \<le> max_retries \<Longrightarrow>
     requests_made (token_details_loop ocs base max_retries retries sleeps) \<le> max_retries"
proof (induction "max_retries - retries" arbitrary: retries sleeps)
  case 0
  then show ?case by (subst token_details_loop.simps) simp
next
  case (Suc d)
  then have "retries < max_retries" by simp
  moreover have "requests_made (token_details_loop ocs base max_retries (retries + 1)
                   (sleeps @ [2 ^ (retries + 1)])) \<le> max_retries"
    using Suc by (intro Suc.hyps(1)) auto
  ultimately show ?case
    by (subst token_details_loop.simps) (simp split: outcome.splits)
qed

lemma backoff_increasing:
  "sorted_wrt (<) (map (\<lambda>j. 3 + (j + 1) * 3) [0..<k] :: nat list)"
  "sorted_wrt (<) (map (\<lambda>j. 2 ^ (j + 1)) [0..<k] :: nat list)"
  by (simp_all add: sorted_wrt_map sorted_wrt_iff_nth_less)

text \<open>
  Claim C7. For the fetch of the listings and the fetch of a token's details, with a limit
  of \<open>m\<close> attempts (5 and 3 in the code): when every request times out, exactly \<open>m\<close>
  requests are made, each followed by a sleep, the sleeps grow strictly (6, 9, 12, \<dots>
  seconds for the listings, 2, 4, 8, \<dots> for the details), and the result is \<^verbatim>\<open>None\<close>.
  When a request fails otherwise, after \<open>k\<close> timeouts, the result is \<^verbatim>\<open>None\<close> at once:
  no sleep and no request follows the failure. A response is returned as it is. No fetch
  makes more than \<open>m\<close> requests.
\<close>

theorem fetch_retry_policy:
  "((\<forall>i<m. ocs (base + i) = Timeout) \<longrightarrow>
      get_new_listings ocs base m =
        \<lparr>fetched = PNone, slept = map (\<lambda>j. 3 + (j + 1) * 3) [0..<m], requests_made = m\<rparr> \<and>
      get_token_details ocs base m =
        \<lparr>fetched = PNone, slept = map (\<lambda>j. 2 ^ (j + 1)) [0..<m], requests_made = m\<rparr>) \<and>
   (k < m \<and> (\<forall>i<k. ocs (base + i) = Timeout) \<and> ocs (base + k) = RequestFailed \<longrightarrow>
      get_new_listings ocs base m =
        \<lparr>fetched = PNone, slept = map (\<lambda>j. 3 + (j + 1) * 3) [0..<k], requests_made = k + 1\<rparr> \<and>
      get_token_details ocs base m =
        \<lparr>fetched = PNone, slept = map (\<lambda>j. 2 ^ (j + 1)) [0..<k], requests_made = k + 1\<rparr>) \<and>
   (k < m \<and> (\<forall>i<k. ocs (base + i) = Timeout) \<and> ocs (base + k) = Response v \<longrightarrow>
      get_new_listings ocs base m =
        \<lparr>fetched = v, slept = map (\<lambda>j. 3 + (j + 1) * 3) [0..<k], requests_made = k + 1\<rparr> \<and>
      get_token_details ocs base m =
        \<lparr>fetched = v, slept = map (\<lambda>j. 2 ^ (j + 1)) [0..<k], requests_made = k + 1\<rparr>) \<and>
   requests_made (get_new_listings ocs base m) \<le> m \<and>
   requests_made (get_token_details ocs base m) \<le> m \<and>
   sorted_wrt (<) (map (\<lambda>j. 3 + (j + 1) * 3) [0..<m] :: nat list) \<and>
   sorted_wrt (<) (map (\<lambda>j. 2 ^ (j + 1)) [0..<m] :: nat list)"
proof (intro conjI impI)
  assume a: "\<forall>i<m. ocs (base + i) = Timeout"
  show "get_new_listings ocs base m =
        \<lparr>fetched = PNone, slept = map (\<lambda>j. 3 + (j + 1) * 3) [0..<m], requests_made = m\<rparr>"
    unfolding get_new_listings_after_timeouts [OF a order_refl]
    by (subst new_listings_loop.simps) simp
  show "get_token_details ocs base m =
        \<lparr>fetched = PNone, slept = map (\<lambda>j. 2 ^ (j + 1)) [0..<m], requests_made = m\<rparr>"
    unfolding get_token_details_after_timeouts [OF a order_refl]
    by (subst token_details_loop.simps) simp
next
  assume a: "k < m \<and> (\<forall>i<k. ocs (base + i) = Timeout) \<and> ocs (base + k) = RequestFailed"
  then have t: "\<forall>i<k. ocs (base + i) = Timeout" and le: "k \<le> m"
    by simp_all
  show "get_new_listings ocs base m =
        \<lparr>fetched = PNone, slept = map (\<lambda>j. 3 + (j + 1) * 3) [0..<k], requests_made = k + 1\<rparr>"
    unfolding get_new_listings_after_timeouts [OF t le]
    using a by (subst new_listings_loop.simps) simp
  show "get_token_details ocs base m =
        \<lparr>fetched = PNone, slept = map (\<lambda>j. 2 ^ (j + 1)) [0..<k], requests_made = k + 1\<rparr>"
    unfolding get_token_details_after_timeouts [OF t le]
    using a by (subst token_details_loop.simps) simp
next
  assume a: "k < m \<and> (\<forall>i<k. ocs (base + i) = Timeout) \<and> ocs (base + k) = Response v"
  then have t: "\<forall>i<k. ocs (base + i) = Timeout" and le: "k \<le> m"
    by simp_all
  show "get_new_listings ocs base m =
        \<lparr>fetched = v, slept = map (\<lambda>j. 3 + (j + 1) * 3) [0..<k], requests_made = k + 1\<rparr>"
    unfolding get_new_listings_after_timeouts [OF t le]
    using a by (subst new_listings_loop.simps) simp
  show "get_token_details ocs base m =
        \<lparr>fetched = v, slept = map (\<lambda>j. 2 ^ (j + 1)) [0..<k], requests_made = k + 1\<rparr>"
    unfolding get_token_details_after_timeouts [OF t le]
    using a by (subst token_details_loop.simps) simp
next
  show "requests_made (get_new_listings ocs base m) \<le> m"
    unfolding get_new_listings_def by (rule new_listings_loop_bounded) simp
  show "requests_made (get_token_details ocs base m) \<le> m"
    unfolding get_token_details_def by (rule token_details_loop_bounded) simp
  show "sorted_wrt (<) (map (\<lambda>j. 3 + (j + 1) * 3) [0..<m] :: nat list)"
    by (rule backoff_increasing)
  show "sorted_wrt (<) (map (\<lambda>j. 2 ^ (j + 1)) [0..<m] :: nat list)"
    by (rule backoff_increasing)
qed

lemma listings_backoff: "map (\<lambda>j. 3 + (j + 1) * 3) [0..<5] = [6, 9, 12, 15, 18 :: nat]"
  by code_simp

lemma details_backoff: "map (\<lambda>j. 2 ^ (j + 1)) [0..<3] = [2, 4, 8 :: nat]"
  by code_simp

theorem fetch_retry_policy_witness:
  "get_new_listings (\<lambda>n::nat. Timeout) 0 5 =
     \<lparr>fetched = PNone, slept = [6, 9, 12, 15, 18], requests_made = 5\<rparr> \<and>
   get_token_details (\<lambda>n::nat. Timeout) 0 3 =
     \<lparr>fetched = PNone, slept = [2, 4, 8], requests_made = 3\<rparr> \<and>
   (0 :: nat) < 5 \<and>
   (\<lambda>n::nat. RequestFailed) (0 + 0) = RequestFailed \<and>
   get_new_listings (\<lambda>n::nat. RequestFailed) 0 5 =
     \<lparr>fetched = PNone, slept = [], requests_made = 1\<rparr> \<and>
   get_token_details (\<lambda>n::nat. RequestFailed) 0 5 =
     \<lparr>fetched = PNone, slept = [], requests_made = 1\<rparr>"
  using fetch_retry_policy [of 5 "\<lambda>n::nat. Timeout" 0 0 PNone]
    fetch_retry_policy [of 3 "\<lambda>n::nat. Timeout" 0 0 PNone]
    fetch_retry_policy [of 5 "\<lambda>n::nat. RequestFailed" 0 0 PNone]
    listings_backoff details_backoff
  by simp

section \<open>The discovery loop\<close>

lemma token_exists_ids:
  "token_exists r d i = Inr True \<longleftrightarrow> bind_param i = None \<and> (\<exists>j \<in> token_ids d. id_matches r j i)"
  by (auto simp: token_exists_iff token_ids_def)

lemma bind_param_hashable: "bind_param i = None \<Longrightarrow> hashable i"
  by (cases i) simp_all

lemma add_token_ids: "add_token r d td now = Inr d' \<Longrightarrow> token_ids d \<subseteq> token_ids d'"
  by (auto simp: add_token_def token_ids_def Let_def split: if_splits option.splits)

lemma update_token_performance_ids:
  "update_token_performance r d i pd now = Inr d' \<Longrightarrow> token_ids d' = token_ids d"
  by (auto simp: update_token_performance_def token_ids_def split: if_splits option.splits)

lemma update_security_check_ids:
  "update_security_check r d i sd now = Inr d' \<Longrightarrow> token_ids d' = token_ids d"
proof -
  assume u: "update_security_check r d i sd now = Inr d'"
  have "map tk_id (tokens d') = map tk_id (tokens d)"
    unfolding update_security_check_tokens [OF u] by (induction "tokens d") (simp_all add: comp_def)
  then show ?thesis
    by (simp only: token_ids_def)
qed

lemma step_for_refl: "step_for i st st"
  by (auto simp: step_for_def)

lemma step_for_trans: "step_for i st st1 \<Longrightarrow> step_for i st1 st2 \<Longrightarrow> step_for i st st2"
  unfolding step_for_def by (elim conjE exE) (auto simp: list_all_iff)

lemma step_for_tick: "step_for i st (tick st)"
  by (auto simp: step_for_def tick_def)

lemma step_for_did: "step_for i st (did i a st)"
  by (auto simp: step_for_def did_def)

lemma step_for_requests: "step_for i st (st\<lparr>n_requests := n\<rparr>)"
  by (auto simp: step_for_def)

lemma step_for_processed: "step_for i st (st\<lparr>processed_tokens := insert i (processed_tokens st)\<rparr>)"
  by (auto simp: step_for_def)

lemma step_for_db: "token_ids (db st) \<subseteq> token_ids d' \<Longrightarrow> step_for i st (st\<lparr>db := d'\<rparr>)"
  by (auto simp: step_for_def)

lemma store_and_notify_step:
  assumes "store_and_notify w i td pd sd st = (e, st')"
  shows "step_for i st st'"
  using assms
  by (auto simp: store_and_notify_def Let_def step_for_def tick_def did_def
           split: sum.splits
           dest!: add_token_ids update_token_performance_ids update_security_check_ids)

text \<open>The body of the loop, for a listing whose id is known, does nothing at all.\<close>

lemma process_listing_known:
  assumes "py_get token ''id'' PNone = Inr i" and "known (rt w) st i"
  shows "process_listing w token st = (None, st)"
proof -
  from assms(2) have h: "hashable i"
    by (auto simp: known_def dest: token_exists_bindable bind_param_hashable)
  from assms(2) have "in_processed st i \<or> token_exists (rt w) (db st) i = Inr True"
    by (auto simp: known_def)
  with h assms(1) show ?thesis
    by (auto simp: process_listing_def)
qed

lemma process_listing_cases:
  assumes "process_listing w token st = (e, st')" and "py_get token ''id'' PNone = Inr i"
  shows "st' = st \<or>
         st' = did i GetDetails
                 (st\<lparr>n_requests := n_requests st + requests_made (get_token_details (net w) (n_requests st) 3)\<rparr>) \<or>
         (\<exists>td pd sd.
            store_and_notify w i td pd sd
              ((did i GetDetails
                 (st\<lparr>n_requests := n_requests st + requests_made (get_token_details (net w) (n_requests st) 3)\<rparr>))
               \<lparr>processed_tokens :=
                  insert i (processed_tokens (did i GetDetails
                 (st\<lparr>n_requests := n_requests st + requests_made (get_token_details (net w) (n_requests st) 3)\<rparr>)))\<rparr>)
            = (e, st'))"
  using assms unfolding process_listing_def Let_def
  by (simp split: sum.splits if_splits option.splits prod.splits) blast+

lemma process_listing_step:
  assumes "process_listing w token st = (e, st')" and "py_get token ''id'' PNone = Inr i"
  shows "step_for i st st'"
proof -
  let ?st1 = "did i GetDetails
                 (st\<lparr>n_requests := n_requests st + requests_made (get_token_details (net w) (n_requests st) 3)\<rparr>)"
  have s1: "step_for i st ?st1"
    by (rule step_for_trans [OF step_for_requests step_for_did])
  have s2: "step_for i st (?st1\<lparr>processed_tokens := insert i (processed_tokens ?st1)\<rparr>)"
    by (rule step_for_trans [OF s1 step_for_processed])
  from process_listing_cases [OF assms] show ?thesis
    using step_for_refl s1 step_for_trans [OF s2 store_and_notify_step] by blast
qed

lemma process_listing_no_id:
  "py_get token ''id'' PNone = Inl e \<Longrightarrow> process_listing w token st = (Some e, st)"
  by (simp add: process_listing_def)

lemma known_step: "step_for i st st' \<Longrightarrow> known r st token_id \<Longrightarrow> known r st' token_id"
  unfolding step_for_def known_def token_exists_ids in_processed_def by blast

lemma events_for_step: "step_for i st st' \<Longrightarrow> i \<noteq> token_id \<Longrightarrow> events_for token_id st' = events_for token_id st"
proof -
  assume s: "step_for i st st'" and n: "i \<noteq> token_id"
  from s obtain evs where t: "trace st' = trace st @ evs" and a: "list_all (\<lambda>e. fst e = i) evs"
    unfolding step_for_def by blast
  from a n have "filter (\<lambda>e. fst e = token_id) evs = []"
    by (auto simp: list_all_iff filter_empty_conv)
  with t show ?thesis
    by (simp add: events_for_def)
qed

text \<open>One listing leaves a known id alone, whether it is the listing's id or not.\<close>

lemma process_listing_keeps_known:
  assumes "known (rt w) st token_id" and "process_listing w token st = (e, st')"
  shows "known (rt w) st' token_id \<and> events_for token_id st' = events_for token_id st"
proof (cases "py_get token ''id'' PNone")
  case (Inl e)
  with assms show ?thesis
    by (simp add: process_listing_no_id)
next
  case (Inr i)
  show ?thesis
  proof (cases "i = token_id")
    case True
    with Inr assms show ?thesis
      by (simp add: process_listing_known)
  next
    case False
    from process_listing_step [OF assms(2) Inr] have "step_for i st st'" .
    with False assms(1) show ?thesis
      by (simp add: known_step events_for_step)
  qed
qed

lemma process_listings_keep_known:
  assumes "known (rt w) st token_id"
  shows "known (rt w) (snd (process_listings w candidates st)) token_id \<and>
         events_for token_id (snd (process_listings w candidates st)) = events_for token_id st"
  using assms
proof (induction candidates arbitrary: st)
  case Nil
  then show ?case by simp
next
  case (Cons token rest)
  obtain e st1 where p: "process_listing w token st = (e, st1)"
    by (cases "process_listing w token st") auto
  from process_listing_keeps_known [OF Cons.prems p]
  have k: "known (rt w) st1 token_id" and ev: "events_for token_id st1 = events_for token_id st"
    by simp_all
  show ?case
  proof (cases e)
    case None
    with p Cons.IH [OF k] ev show ?thesis by simp
  next
    case (Some err)
    with p k ev show ?thesis by simp
  qed
qed

lemma check_new_listings_cases:
  "snd (check_new_listings w st) =
     st\<lparr>n_requests := n_requests st + requests_made (get_new_listings (net w) (n_requests st) 5)\<rparr> \<or>
   (\<exists>candidates.
      check_new_listings w st =
        process_listings w candidates
          (st\<lparr>n_requests := n_requests st + requests_made (get_new_listings (net w) (n_requests st) 5)\<rparr>))"
  unfolding check_new_listings_def Let_def
  by (simp split: sum.splits) blast

lemma known_requests: "known r (st\<lparr>n_requests := n\<rparr>) token_id = known r st token_id"
  by (simp add: known_def in_processed_def)

lemma events_for_requests: "events_for token_id (st\<lparr>n_requests := n\<rparr>) = events_for token_id st"
  by (simp add: events_for_def)

text \<open>
  Claim C2. In every discovery cycle, a token id that is already in \<^verbatim>\<open>processed_tokens\<close>
  or for which \<^verbatim>\<open>token_exists\<close> returns true is skipped: the body of the loop leaves
  the whole state as it is for a listing of that id (no request is made, nothing is
  written, nothing is sent), and over any list of candidates and over the whole of
  \<^verbatim>\<open>check_new_listings\<close> the trace gains no entry for that id: no \<^verbatim>\<open>get_token_details\<close>,
  no write to the store, no message; the id stays known.
\<close>

theorem known_ids_skipped:
  assumes "known (rt w) st token_id"
  shows "(py_get token ''id'' PNone = Inr token_id \<longrightarrow> process_listing w token st = (None, st)) \<and>
         events_for token_id (snd (process_listings w candidates st)) = events_for token_id st \<and>
         events_for token_id (snd (check_new_listings w st)) = events_for token_id st \<and>
         known (rt w) (snd (check_new_listings w st)) token_id"
proof (intro conjI impI)
  assume "py_get token ''id'' PNone = Inr token_id"
  then show "process_listing w token st = (None, st)"
    using assms by (rule process_listing_known)
next
  show "events_for token_id (snd (process_listings w candidates st)) = events_for token_id st"
    using process_listings_keep_known [OF assms] by simp
next
  let ?st1 = "st\<lparr>n_requests := n_requests st + requests_made (get_new_listings (net w) (n_requests st) 5)\<rparr>"
  have k1: "known (rt w) ?st1 token_id"
    using assms by (simp only: known_requests)
  have e1: "events_for token_id ?st1 = events_for token_id st"
    by (rule events_for_requests)
  from check_new_listings_cases [of w st]
  have "known (rt w) (snd (check_new_listings w st)) token_id \<and>
        events_for token_id (snd (check_new_listings w st)) = events_for token_id st"
  proof
    assume "snd (check_new_listings w st) = ?st1"
    with k1 e1 show ?thesis by simp
  next
    assume "\<exists>candidates. check_new_listings w st = process_listings w candidates ?st1"
    then obtain cs where "check_new_listings w st = process_listings w cs ?st1"
      by blast
    with process_listings_keep_known [OF k1, of cs] e1 show ?thesis
      by simp
  qed
  then show "events_for token_id (snd (check_new_listings w st)) = events_for token_id st"
    and "known (rt w) (snd (check_new_listings w st)) token_id"
    by simp_all
qed

theorem known_ids_skipped_witness:
  "known (rt discovery_world) (hour_monitor []) (PStr ''tok1'') \<and>
   py_get (PDict [(''id'', PStr ''tok1''), (''name'', PStr ''CAT pump.fun'')]) ''id'' PNone
     = Inr (PStr ''tok1'') \<and>
   process_listing discovery_world
     (PDict [(''id'', PStr ''tok1''), (''name'', PStr ''CAT pump.fun'')]) (hour_monitor [])
     = (None, hour_monitor []) \<and>
   events_for (PStr ''tok1'') (snd (check_new_listings discovery_world (hour_monitor []))) = []"
proof -
  have k: "known (rt discovery_world) (hour_monitor []) (PStr ''tok1'')"
    by (simp add: known_def token_exists_def hour_monitor_def demo_db_def demo_token_def
        id_matches_def sql_eq_def text_affinity_def)
  have i: "py_get (PDict [(''id'', PStr ''tok1''), (''name'', PStr ''CAT pump.fun'')]) ''id'' PNone
     = Inr (PStr ''tok1'')"
    by (simp add: dict_get_def)
  have e: "events_for (PStr ''tok1'') (hour_monitor []) = []"
    by (simp add: events_for_def hour_monitor_def)
  show ?thesis
    using known_ids_skipped [OF k,
        of "PDict [(''id'', PStr ''tok1''), (''name'', PStr ''CAT pump.fun'')]" "[]"] k i e
    by simp
qed

end
